theory Spec2Isabelle
  imports Main "HOL-Library.Word" "HOL-Library.AList"
begin

section \<open>Values, exceptions and effects\<close>

text \<open>
  The gateway of \<^verbatim>\<open>llm_backend/main.py\<close>: five POST handlers over collaborators
  that are imported from elsewhere (the service classes, the logger, the clock, the file
  system). A Python value that reaches a response is a \<open>pyval\<close>; a dict is an association
  list in insertion order, looked up with \<open>map_of\<close>.
\<close>

datatype pyval =
    PNone
  | PBool bool
  | PInt int
  | PStr string
  | PList "pyval list"
  | PDict "(string \<times> pyval) list"

type_synonym dict = "(string \<times> pyval) list"

text \<open>
  An exception caught by \<^verbatim>\<open>except Exception as e\<close>: its class name and \<^verbatim>\<open>str(e)\<close>.
\<close>

datatype exn = Exn (exn_class: string) (exn_str: string)

text \<open>
  What a backend's \<^verbatim>\<open>generate_stream\<close> returns: a forward-only sequence of text
  fragments that ends cleanly or raises part-way.
\<close>

datatype tokseq = End | Failed exn | Token string tokseq

type_synonym message = "(string \<times> string) list"

datatype kind = Chat | Reasoner | Search | RagChat | Rag

datatype call_args =
    MsgArgs "message list"
  | QueryArg string
  | RagArgs "message list" string

text \<open>The side effects a handler performs, in the order it performs them.\<close>

datatype event =
    LogInfo string
  | LogError string
  | LogStructured string dict
  | Construct kind
  | StreamCall kind call_args
  | Mkdir
  | ReadUpload
  | OpenWrite string
  | Printed string
  | ProcessFile dict

record state =
  files :: "string \<rightharpoonup> 8 word list"
  trace :: "event list"

text \<open>A naive date and time, as \<^verbatim>\<open>datetime.now()\<close> returns it.\<close>

record datetime =
  year :: nat
  month :: nat
  day :: nat
  hour :: nat
  minute :: nat
  second :: nat
  microsecond :: nat

text \<open>
  The collaborators, none of which is defined in \<^verbatim>\<open>main.py\<close>. Each call either
  returns or raises: \<open>None\<close> (or \<open>Inr\<close>) is a normal return, \<open>Some e\<close> (or \<open>Inl e\<close>)
  raises \<open>e\<close>. A service instance is represented by its one method. \<open>now\<close> is the
  reading \<^verbatim>\<open>datetime.now()\<close> gives the handler. \<open>write_bytes\<close> gives, when the write
  fails, the exception and how many bytes reached the file. \<open>dict_str\<close> is Python's
  \<^verbatim>\<open>str\<close> of a dict.
\<close>

record env =
  logger_info :: "string \<Rightarrow> exn option"
  logger_error :: "string \<Rightarrow> exn option"
  log_structured :: "string \<Rightarrow> dict \<Rightarrow> exn option"
  create_chat_service :: "exn + (message list \<Rightarrow> exn + tokseq)"
  create_reasoner_service :: "exn + (message list \<Rightarrow> exn + tokseq)"
  SearchService :: "exn + (string \<Rightarrow> exn + tokseq)"
  RAGChatService :: "exn + (message list \<Rightarrow> string \<Rightarrow> exn + tokseq)"
  RAGService :: "exn + (dict \<Rightarrow> exn + pyval)"
  now :: datetime
  mkdir :: "exn option"
  open_wb :: "string \<Rightarrow> exn option"
  write_bytes :: "string \<Rightarrow> 8 word list \<Rightarrow> (exn \<times> nat) option"
  print_out :: "string \<Rightarrow> exn option"
  dict_str :: "dict \<Rightarrow> string"

text \<open>
  The uploaded file as the handler sees it. A part of the multipart body is an upload
  only when it names a file, so \<^verbatim>\<open>file.filename\<close> is a string; the declared content
  type may be missing; \<^verbatim>\<open>await file.read()\<close> returns the bytes or raises.
\<close>

record upload =
  filename :: string
  content_type :: "string option"
  read_body :: "exn + 8 word list"

text \<open>
  What a handler hands back to the framework, and how a block of statements completes:
  it falls through to the next statement (\<open>Normal\<close>, carrying the local variable
  \<^verbatim>\<open>result\<close> when it is bound), returns, raises an exception, or raises
  \<^verbatim>\<open>HTTPException(status_code, detail)\<close>.
\<close>

datatype retval =
    Json dict
  | StreamingResponse tokseq string
  | Text string

datatype completion =
    Normal "dict option"
  | Ret retval
  | Exc exn
  | ExcHTTP nat string

type_synonym 'a step = "state \<Rightarrow> (exn + 'a) \<times> state"

definition emit :: "event \<Rightarrow> state \<Rightarrow> state" where
  "emit ev st = st\<lparr>trace := trace st @ [ev]\<rparr>"

definition call :: "event \<Rightarrow> exn option \<Rightarrow> unit step" where
  "call ev r st = ((case r of None \<Rightarrow> Inr () | Some e \<Rightarrow> Inl e), emit ev st)"

definition invoke :: "event \<Rightarrow> (exn + 'a) \<Rightarrow> 'a step" where
  "invoke ev r st = (r, emit ev st)"

definition pure :: "(exn + 'a) \<Rightarrow> 'a step" where
  "pure r st = (r, st)"

definition and_then :: "'a step \<Rightarrow> ('a \<Rightarrow> state \<Rightarrow> completion \<times> state) \<Rightarrow> state \<Rightarrow> completion \<times> state" where
  "and_then m k st = (case m st of (Inl e, st') \<Rightarrow> (Exc e, st') | (Inr v, st') \<Rightarrow> k v st')"

definition try_except ::
  "(state \<Rightarrow> completion \<times> state) \<Rightarrow> (exn \<Rightarrow> state \<Rightarrow> completion \<times> state) \<Rightarrow> state \<Rightarrow> completion \<times> state" where
  "try_except body handler st =
     (case body st of (Exc e, st') \<Rightarrow> handler e st' | r \<Rightarrow> r)"


definition returning :: "retval \<Rightarrow> state \<Rightarrow> completion \<times> state" where
  "returning v st = (Ret v, st)"

definition raise_http :: "nat \<Rightarrow> string \<Rightarrow> state \<Rightarrow> completion \<times> state" where
  "raise_http code detail st = (ExcHTTP code detail, st)"

section \<open>Python operations the handlers use\<close>

definition quoted :: "string \<Rightarrow> string" where
  "quoted s = [CHR 0x27] @ s @ [CHR 0x27]"

definition index_error :: exn where
  "index_error = Exn ''IndexError'' ''list index out of range''"

definition key_error :: "string \<Rightarrow> exn" where
  "key_error k = Exn ''KeyError'' (quoted k)"

text \<open>\<^verbatim>\<open>xs[-1]\<close> and \<^verbatim>\<open>xs[0]\<close>: IndexError on the empty list.\<close>

definition last_item :: "'a list \<Rightarrow> exn + 'a" where
  "last_item xs = (if xs = [] then Inl index_error else Inr (last xs))"

definition first_item :: "'a list \<Rightarrow> exn + 'a" where
  "first_item xs = (case xs of [] \<Rightarrow> Inl index_error | x # _ \<Rightarrow> Inr x)"

text \<open>\<^verbatim>\<open>d[k]\<close>: KeyError when the key is missing.\<close>

definition getitem :: "message \<Rightarrow> string \<Rightarrow> exn + string" where
  "getitem d k = (case map_of d k of None \<Rightarrow> Inl (key_error k) | Some v \<Rightarrow> Inr v)"

text \<open>\<^verbatim>\<open>request.messages[-1]["content"][:100] + "..."\<close>\<close>

definition last_message :: "message list \<Rightarrow> exn + string" where
  "last_message msgs =
     (case last_item msgs of
        Inl e \<Rightarrow> Inl e
      | Inr m \<Rightarrow> (case getitem m ''content'' of
                   Inl e \<Rightarrow> Inl e
                 | Inr c \<Rightarrow> Inr (take 100 c @ ''...'')))"

text \<open>\<^verbatim>\<open>request.messages[0]["content"]\<close>\<close>

definition first_content :: "message list \<Rightarrow> exn + string" where
  "first_content msgs =
     (case first_item msgs of Inl e \<Rightarrow> Inl e | Inr m \<Rightarrow> getitem m ''content'')"

text \<open>
  \<^verbatim>\<open>{**a, **b}\<close>: the keys of \<open>a\<close> in order, each taking the value \<open>b\<close> gives it when
  \<open>b\<close> has the key, then the keys only \<open>b\<close> has. Unpacking a value that is not a mapping
  raises TypeError.
\<close>

definition dict_merge :: "dict \<Rightarrow> dict \<Rightarrow> dict" where
  "dict_merge a b = fold (\<lambda>(k, v). AList.update k v) b a"

fun type_name :: "pyval \<Rightarrow> string" where
  "type_name PNone = ''NoneType''"
| "type_name (PBool _) = ''bool''"
| "type_name (PInt _) = ''int''"
| "type_name (PStr _) = ''str''"
| "type_name (PList _) = ''list''"
| "type_name (PDict _) = ''dict''"

definition merge_result :: "dict \<Rightarrow> pyval \<Rightarrow> exn + dict" where
  "merge_result file_info rag_result =
     (case rag_result of
        PDict kvs \<Rightarrow> Inr (dict_merge file_info kvs)
      | v \<Rightarrow> Inl (Exn ''TypeError'' (quoted (type_name v) @ '' object is not a mapping'')))"

subsection \<open>\<^verbatim>\<open>strftime("%Y%m%d_%H%M%S")\<close>\<close>

definition digit :: "nat \<Rightarrow> char" where
  "digit d = ''0123456789'' ! d"

definition pad2 :: "nat \<Rightarrow> string" where
  "pad2 n = [digit (n div 10 mod 10), digit (n mod 10)]"

definition pad4 :: "nat \<Rightarrow> string" where
  "pad4 n = [digit (n div 1000 mod 10), digit (n div 100 mod 10), digit (n div 10 mod 10), digit (n mod 10)]"

definition strftime :: "datetime \<Rightarrow> string" where
  "strftime dt =
     pad4 (year dt) @ pad2 (month dt) @ pad2 (day dt) @ ''_'' @
     pad2 (hour dt) @ pad2 (minute dt) @ pad2 (second dt)"

text \<open>\<^verbatim>\<open>filename = f"{timestamp}_{file.filename}"\<close>\<close>

definition stored_filename :: "datetime \<Rightarrow> string \<Rightarrow> string" where
  "stored_filename dt original_name = strftime dt @ ''_'' @ original_name"

subsection \<open>\<^verbatim>\<open>UPLOAD_DIR / filename\<close> and \<^verbatim>\<open>str(file_path)\<close>\<close>

text \<open>
  pathlib, POSIX flavour: the joined path is split at \<open>/\<close>, empty and \<open>.\<close> components
  are dropped, and the rest is joined with \<open>/\<close> again. The stored filename starts with a
  digit of the timestamp, so it never replaces \<^verbatim>\<open>UPLOAD_DIR\<close> as an absolute path would.
\<close>

fun split_on :: "char \<Rightarrow> string \<Rightarrow> string list" where
  "split_on c [] = [[]]"
| "split_on c (x # xs) =
     (if x = c then [] # split_on c xs
      else (case split_on c xs of [] \<Rightarrow> [[x]] | p # ps \<Rightarrow> (x # p) # ps))"

definition path_parts :: "string \<Rightarrow> string list" where
  "path_parts s = filter (\<lambda>p. p \<noteq> [] \<and> p \<noteq> ''.'') (split_on CHR ''/'' s)"

definition UPLOAD_DIR :: string where
  "UPLOAD_DIR = ''uploads''"

definition file_path_str :: "string \<Rightarrow> string" where
  "file_path_str name = UPLOAD_DIR @ concat (map (\<lambda>p. ''/'' @ p) (path_parts name))"

text \<open>\<^verbatim>\<open>s.replace('\\', '/')\<close>\<close>

definition replace_backslash :: "string \<Rightarrow> string" where
  "replace_backslash s = map (\<lambda>c. if c = CHR 0x5C then CHR ''/'' else c) s"


section \<open>The handlers\<close>

subsection \<open>\<^verbatim>\<open>POST /chat\<close>\<close>

definition request_fields :: "message list \<Rightarrow> string \<Rightarrow> dict" where
  "request_fields msgs preview =
     [(''message_count'', PInt (int (length msgs))), (''last_message'', PStr preview)]"

definition chat_try :: "env \<Rightarrow> message list \<Rightarrow> state \<Rightarrow> completion \<times> state" where
  "chat_try env msgs =
     and_then (call (LogInfo ''Processing chat request'') (logger_info env ''Processing chat request'')) (\<lambda>_.
     and_then (invoke (Construct Chat) (create_chat_service env)) (\<lambda>generate_stream.
     and_then (pure (last_message msgs)) (\<lambda>preview.
     and_then (call (LogStructured ''chat_request'' (request_fields msgs preview))
                 (log_structured env ''chat_request'' (request_fields msgs preview))) (\<lambda>_.
     and_then (invoke (StreamCall Chat (MsgArgs msgs)) (generate_stream msgs)) (\<lambda>stream.
     returning (StreamingResponse stream ''text/event-stream''))))))"

definition chat_except :: "env \<Rightarrow> exn \<Rightarrow> state \<Rightarrow> completion \<times> state" where
  "chat_except env e =
     and_then (call (LogError (''Chat error: '' @ exn_str e)) (logger_error env (''Chat error: '' @ exn_str e))) (\<lambda>_.
     raise_http 500 (exn_str e))"

definition chat_endpoint :: "env \<Rightarrow> message list \<Rightarrow> state \<Rightarrow> completion \<times> state" where
  "chat_endpoint env msgs = try_except (chat_try env msgs) (chat_except env)"

subsection \<open>\<^verbatim>\<open>POST /reason\<close>\<close>

definition reason_try :: "env \<Rightarrow> message list \<Rightarrow> state \<Rightarrow> completion \<times> state" where
  "reason_try env msgs =
     and_then (call (LogInfo ''Processing reasoning request'') (logger_info env ''Processing reasoning request'')) (\<lambda>_.
     and_then (invoke (Construct Reasoner) (create_reasoner_service env)) (\<lambda>generate_stream.
     and_then (pure (last_message msgs)) (\<lambda>preview.
     and_then (call (LogStructured ''reason_request'' (request_fields msgs preview))
                 (log_structured env ''reason_request'' (request_fields msgs preview))) (\<lambda>_.
     and_then (invoke (StreamCall Reasoner (MsgArgs msgs)) (generate_stream msgs)) (\<lambda>stream.
     returning (StreamingResponse stream ''text/event-stream''))))))"

definition reason_except :: "env \<Rightarrow> exn \<Rightarrow> state \<Rightarrow> completion \<times> state" where
  "reason_except env e =
     and_then (call (LogError (''Reasoning error: '' @ exn_str e)) (logger_error env (''Reasoning error: '' @ exn_str e))) (\<lambda>_.
     raise_http 500 (exn_str e))"

definition reason_endpoint :: "env \<Rightarrow> message list \<Rightarrow> state \<Rightarrow> completion \<times> state" where
  "reason_endpoint env msgs = try_except (reason_try env msgs) (reason_except env)"

subsection \<open>\<^verbatim>\<open>POST /search\<close>\<close>

definition search_try :: "env \<Rightarrow> message list \<Rightarrow> state \<Rightarrow> completion \<times> state" where
  "search_try env msgs =
     and_then (invoke (Construct Search) (SearchService env)) (\<lambda>generate_stream.
     and_then (pure (first_content msgs)) (\<lambda>query.
     and_then (invoke (StreamCall Search (QueryArg query)) (generate_stream query)) (\<lambda>stream.
     returning (StreamingResponse stream ''text/event-stream''))))"

definition search_endpoint :: "env \<Rightarrow> message list \<Rightarrow> state \<Rightarrow> completion \<times> state" where
  "search_endpoint env msgs = try_except (search_try env msgs) (\<lambda>e. raise_http 500 (exn_str e))"

subsection \<open>\<^verbatim>\<open>POST /chat-rag\<close>\<close>

definition rag_chat_try :: "env \<Rightarrow> message list \<Rightarrow> string \<Rightarrow> state \<Rightarrow> completion \<times> state" where
  "rag_chat_try env msgs index_id =
     and_then (invoke (Construct RagChat) (RAGChatService env)) (\<lambda>generate_stream.
     and_then (invoke (StreamCall RagChat (RagArgs msgs index_id)) (generate_stream msgs index_id)) (\<lambda>stream.
     returning (StreamingResponse stream ''text/event-stream'')))"

definition rag_chat_endpoint :: "env \<Rightarrow> message list \<Rightarrow> string \<Rightarrow> state \<Rightarrow> completion \<times> state" where
  "rag_chat_endpoint env msgs index_id =
     try_except (rag_chat_try env msgs index_id) (\<lambda>e. raise_http 500 (exn_str e))"

subsection \<open>\<^verbatim>\<open>POST /upload\<close>\<close>

definition open_file :: "env \<Rightarrow> string \<Rightarrow> unit step" where
  "open_file env path st =
     (case open_wb env path of
        Some e \<Rightarrow> (Inl e, emit (OpenWrite path) st)
      | None \<Rightarrow> (Inr (), emit (OpenWrite path) (st\<lparr>files := (files st)(path \<mapsto> [])\<rparr>)))"

definition write_file :: "env \<Rightarrow> string \<Rightarrow> 8 word list \<Rightarrow> unit step" where
  "write_file env path content st =
     (case write_bytes env path content of
        Some (e, n) \<Rightarrow> (Inl e, st\<lparr>files := (files st)(path \<mapsto> take n content)\<rparr>)
      | None \<Rightarrow> (Inr (), st\<lparr>files := (files st)(path \<mapsto> content)\<rparr>))"

definition opt_str :: "string option \<Rightarrow> pyval" where
  "opt_str v = (case v of None \<Rightarrow> PNone | Some s \<Rightarrow> PStr s)"

text \<open>\<^verbatim>\<open>file_path = UPLOAD_DIR / filename\<close>, as the string \<^verbatim>\<open>open\<close> and \<^verbatim>\<open>str\<close> see.\<close>

definition file_path :: "env \<Rightarrow> upload \<Rightarrow> string" where
  "file_path env file = file_path_str (stored_filename (now env) (filename file))"

definition file_info :: "env \<Rightarrow> upload \<Rightarrow> 8 word list \<Rightarrow> dict" where
  "file_info env file content =
     [(''filename'', PStr (stored_filename (now env) (filename file))),
      (''original_name'', PStr (filename file)),
      (''size'', PInt (int (length content))),
      (''type'', opt_str (content_type file)),
      (''path'', PStr (replace_backslash (file_path env file)))]"

definition upload_fields :: "upload \<Rightarrow> 8 word list \<Rightarrow> dict" where
  "upload_fields file content =
     [(''filename'', PStr (filename file)),
      (''size'', PInt (int (length content))),
      (''type'', opt_str (content_type file))]"

text \<open>
  The try block. The timestamp, the stored filename, the path and the metadata are
  computed without a call that can raise (\<^verbatim>\<open>file.filename\<close> is a string;
  \<^verbatim>\<open>file_ext\<close> is computed and never read). The printed line is a fixed prefix
  followed by \<^verbatim>\<open>str(file_path)\<close>; the event keeps the path.
\<close>

definition upload_try :: "env \<Rightarrow> upload \<Rightarrow> state \<Rightarrow> completion \<times> state" where
  "upload_try env file =
     and_then (call (LogInfo (''Uploading file: '' @ filename file)) (logger_info env (''Uploading file: '' @ filename file))) (\<lambda>_.
     and_then (call Mkdir (mkdir env)) (\<lambda>_.
     and_then (invoke ReadUpload (read_body file)) (\<lambda>content.
     and_then (open_file env (file_path env file)) (\<lambda>_.
     and_then (write_file env (file_path env file) content) (\<lambda>_.
     and_then (call (Printed (file_path env file))
                 (print_out env (file_path env file))) (\<lambda>_.
     and_then (invoke (Construct Rag) (RAGService env)) (\<lambda>process_file.
     and_then (invoke (ProcessFile (file_info env file content)) (process_file (file_info env file content))) (\<lambda>rag_result.
     and_then (pure (merge_result (file_info env file content) rag_result)) (\<lambda>result.
     and_then (call (LogStructured ''file_upload'' (upload_fields file content))
                 (log_structured env ''file_upload'' (upload_fields file content))) (\<lambda>_.
     returning (Json result)))))))))))"

definition upload_except :: "env \<Rightarrow> exn \<Rightarrow> state \<Rightarrow> completion \<times> state" where
  "upload_except env e =
     and_then (call (LogError (''Upload failed: '' @ exn_str e)) (logger_error env (''Upload failed: '' @ exn_str e))) (\<lambda>_.
     returning (Json [(''error'', PStr (exn_str e))]))"

text \<open>
  The statement after the try statement, \<^verbatim>\<open>return f"data: {result}\n\n"\<close>, runs when
  the try statement falls through; it reads the local \<^verbatim>\<open>result\<close>.
\<close>

definition upload_trailing :: "env \<Rightarrow> dict option \<Rightarrow> state \<Rightarrow> completion \<times> state" where
  "upload_trailing env result st =
     (case result of
        None \<Rightarrow> (Exc (Exn ''UnboundLocalError'' ''local variable 'result' referenced before assignment''), st)
      | Some r \<Rightarrow> (Ret (Text (''data: '' @ dict_str env r @ [CHR 0x0A, CHR 0x0A])), st))"

definition upload_file :: "env \<Rightarrow> upload \<Rightarrow> state \<Rightarrow> completion \<times> state" where
  "upload_file env file st =
     (case try_except (upload_try env file) (upload_except env) st of
        (Normal result, st') \<Rightarrow> upload_trailing env result st'
      | r \<Rightarrow> r)"

subsection \<open>\<^verbatim>\<open>GET /health\<close>\<close>

definition health_check :: "state \<Rightarrow> completion \<times> state" where
  "health_check = returning (Json [(''status'', PStr ''ok'')])"

section \<open>From a handler's completion to the HTTP response\<close>

text \<open>
  FastAPI serialises a returned dict or string as JSON with status 200, sends a returned
  response object as it is, answers \<^verbatim>\<open>HTTPException(code, detail)\<close> with that status
  and the detail, and answers any other exception that leaves the handler with 500.
\<close>

datatype body =
    JsonBody dict
  | JsonText string
  | JsonNull
  | SseBody tokseq
  | Detail string
  | InternalServerError

record response =
  status :: nat
  body :: body
  streamed :: bool

definition respond :: "completion \<Rightarrow> response" where
  "respond c =
     (case c of
        Ret (Json d) \<Rightarrow> \<lparr>status = 200, body = JsonBody d, streamed = False\<rparr>
      | Ret (Text s) \<Rightarrow> \<lparr>status = 200, body = JsonText s, streamed = False\<rparr>
      | Ret (StreamingResponse ts _) \<Rightarrow> \<lparr>status = 200, body = SseBody ts, streamed = True\<rparr>
      | Normal _ \<Rightarrow> \<lparr>status = 200, body = JsonNull, streamed = False\<rparr>
      | ExcHTTP code detail \<Rightarrow> \<lparr>status = code, body = Detail detail, streamed = False\<rparr>
      | Exc _ \<Rightarrow> \<lparr>status = 500, body = InternalServerError, streamed = False\<rparr>)"


section \<open>The stream adapter\<close>

text \<open>What reaches the client: data frames, then the end of the stream or an error frame.\<close>

datatype frame = DataFrame string | ErrorFrame string | StreamClosed

text \<open>
  Modelled from the spec: the Stream Adapter of section 4.3. In \<^verbatim>\<open>main.py\<close> the
  adapter is the framework's \<^verbatim>\<open>StreamingResponse\<close> around the service's
  \<^verbatim>\<open>generate_stream\<close>, and neither is defined there. The spec: each token is one
  SSE data frame, in source order; a sequence that raises mid-stream ends in a terminal
  error frame; a sequence that completes normally just closes the stream.
\<close>

fun stream_adapter :: "tokseq \<Rightarrow> frame list" where
  "stream_adapter End = [StreamClosed]"
| "stream_adapter (Failed e) = [ErrorFrame (exn_str e)]"
| "stream_adapter (Token t ts) = DataFrame t # stream_adapter ts"

text \<open>The sequence that yields the given tokens and then goes on as \<open>rest\<close>.\<close>

fun emits :: "string list \<Rightarrow> tokseq \<Rightarrow> tokseq" where
  "emits [] rest = rest"
| "emits (t # ts) rest = Token t (emits ts rest)"

section \<open>Clock readings\<close>









section \<open>Concrete requests and collaborators\<close>

definition st0 :: state where
  "st0 = \<lparr>files = Map.empty, trace = []\<rparr>"

definition noon :: datetime where
  "noon = \<lparr>year = 2024, month = 3, day = 9, hour = 12, minute = 0, second = 7, microsecond = 250000\<rparr>"

definition hello :: "message list" where
  "hello = [[(''role'', ''user''), (''content'', ''hello'')]]"

definition env_ok :: env where
  "env_ok =
     \<lparr>logger_info = (\<lambda>_. None),
      logger_error = (\<lambda>_. None),
      log_structured = (\<lambda>_ _. None),
      create_chat_service = Inr (\<lambda>_. Inr (Token ''hi'' End)),
      create_reasoner_service = Inr (\<lambda>_. Inr (Token ''so'' End)),
      SearchService = Inr (\<lambda>q. Inr (Token q End)),
      RAGChatService = Inr (\<lambda>_ index_id. Inr (Token index_id End)),
      RAGService = Inr (\<lambda>_. Inr (PDict [(''index_id'', PStr ''idx1'')])),
      now = noon,
      mkdir = None,
      open_wb = (\<lambda>_. None),
      write_bytes = (\<lambda>_ _. None),
      print_out = (\<lambda>_. None),
      dict_str = (\<lambda>_. ''{}'')\<rparr>"

definition missing_key :: exn where
  "missing_key = Exn ''ValueError'' ''missing API key''"

definition disk_full :: exn where
  "disk_full = Exn ''OSError'' ''No space left on device''"

definition env_no_backend :: env where
  "env_no_backend = env_ok\<lparr>create_chat_service := Inl missing_key, create_reasoner_service := Inl missing_key\<rparr>"

definition env_log_fails :: env where
  "env_log_fails = env_ok\<lparr>logger_info := (\<lambda>_. Some disk_full)\<rparr>"

definition env_write_fails :: env where
  "env_write_fails = env_ok\<lparr>write_bytes := (\<lambda>_ _. Some (disk_full, 1))\<rparr>"

definition env_rag_filename :: env where
  "env_rag_filename = env_ok\<lparr>RAGService := Inr (\<lambda>_. Inr (PDict [(''filename'', PStr ''other.txt'')]))\<rparr>"

definition env_rag_size :: env where
  "env_rag_size = env_ok\<lparr>RAGService := Inr (\<lambda>_. Inr (PDict [(''size'', PInt 0)]))\<rparr>"

definition log_broken :: exn where
  "log_broken = Exn ''OSError'' ''log sink unavailable''"

definition env_no_backend_log_broken :: env where
  "env_no_backend_log_broken = env_no_backend\<lparr>logger_error := (\<lambda>_. Some log_broken)\<rparr>"

definition env_write_fails_log_broken :: env where
  "env_write_fails_log_broken = env_write_fails\<lparr>logger_error := (\<lambda>_. Some log_broken)\<rparr>"

definition env_rag_down_log_broken :: env where
  "env_rag_down_log_broken = env_ok\<lparr>RAGService := Inl missing_key, logger_error := (\<lambda>_. Some log_broken)\<rparr>"

definition env_structured_log_fails :: env where
  "env_structured_log_fails = env_ok\<lparr>log_structured := (\<lambda>_ _. Some disk_full)\<rparr>"

definition backslash_txt :: upload where
  "backslash_txt =
     \<lparr>filename = ''a'' @ [CHR 0x5C] @ ''b.txt'', content_type = Some ''text/plain'', read_body = Inr [1, 2, 3]\<rparr>"

definition notes_txt :: upload where
  "notes_txt = \<lparr>filename = ''a.txt'', content_type = Some ''text/plain'', read_body = Inr [1, 2, 3]\<rparr>"


section \<open>An upload whose steps all return\<close>

text \<open>
  Every step of the upload up to the merge returned: the upload was logged, the body
  \<open>content\<close> was read and written to \<open>file_path\<close>, and the indexing collaborator
  returned the dict \<open>kvs\<close>.
\<close>

definition ingested :: "env \<Rightarrow> upload \<Rightarrow> 8 word list \<Rightarrow> dict \<Rightarrow> bool" where
  "ingested env file content kvs =
     (logger_info env (''Uploading file: '' @ filename file) = None \<and>
      mkdir env = None \<and>
      read_body file = Inr content \<and>
      open_wb env (file_path env file) = None \<and>
      write_bytes env (file_path env file) content = None \<and>
      print_out env (file_path env file) = None \<and>
      (case RAGService env of
         Inl _ \<Rightarrow> False
       | Inr process_file \<Rightarrow> process_file (file_info env file content) = Inr (PDict kvs)))"

section \<open>Sequencing lemmas\<close>

lemma and_then_call:
  "and_then (call ev r) k st = (case r of None \<Rightarrow> k () (emit ev st) | Some e \<Rightarrow> (Exc e, emit ev st))"
  by (simp add: and_then_def call_def split: option.splits)

lemma and_then_invoke:
  "and_then (invoke ev r) k st = (case r of Inl e \<Rightarrow> (Exc e, emit ev st) | Inr v \<Rightarrow> k v (emit ev st))"
  by (simp add: and_then_def invoke_def split: sum.splits)

lemma and_then_pure:
  "and_then (pure r) k st = (case r of Inl e \<Rightarrow> (Exc e, st) | Inr v \<Rightarrow> k v st)"
  by (simp add: and_then_def pure_def split: sum.splits)

lemma try_except_Exc:
  "blk st = (Exc e, st1) \<Longrightarrow> try_except blk handler st = handler e st1"
  by (simp add: try_except_def)

lemma trace_emit: "trace (emit ev st) = trace st @ [ev]"
  by (simp add: emit_def)

lemma files_emit: "files (emit ev st) = files st"
  by (simp add: emit_def)

lemma chat_try_construct_fails:
  assumes "logger_info env ''Processing chat request'' = None" and "create_chat_service env = Inl e"
  shows "chat_try env msgs st = (Exc e, emit (Construct Chat) (emit (LogInfo ''Processing chat request'') st))"
  using assms by (simp add: chat_try_def and_then_call and_then_invoke)

lemma reason_try_construct_fails:
  assumes "logger_info env ''Processing reasoning request'' = None" and "create_reasoner_service env = Inl e"
  shows "reason_try env msgs st = (Exc e, emit (Construct Reasoner) (emit (LogInfo ''Processing reasoning request'') st))"
  using assms by (simp add: reason_try_def and_then_call and_then_invoke)

lemma chat_construct_fails:
  assumes "logger_info env ''Processing chat request'' = None" and "create_chat_service env = Inl e"
  shows "chat_endpoint env msgs st =
    (case logger_error env (''Chat error: '' @ exn_str e) of None \<Rightarrow> ExcHTTP 500 (exn_str e) | Some e' \<Rightarrow> Exc e',
     emit (LogError (''Chat error: '' @ exn_str e)) (emit (Construct Chat) (emit (LogInfo ''Processing chat request'') st)))"
  by (simp add: chat_endpoint_def try_except_Exc[OF chat_try_construct_fails[OF assms]] chat_except_def
       and_then_call raise_http_def split: option.splits)

lemma reason_construct_fails:
  assumes "logger_info env ''Processing reasoning request'' = None" and "create_reasoner_service env = Inl e"
  shows "reason_endpoint env msgs st =
    (case logger_error env (''Reasoning error: '' @ exn_str e) of None \<Rightarrow> ExcHTTP 500 (exn_str e) | Some e' \<Rightarrow> Exc e',
     emit (LogError (''Reasoning error: '' @ exn_str e)) (emit (Construct Reasoner) (emit (LogInfo ''Processing reasoning request'') st)))"
  by (simp add: reason_endpoint_def try_except_Exc[OF reason_try_construct_fails[OF assms]] reason_except_def
       and_then_call raise_http_def split: option.splits)

section \<open>Empty message sequences: what each route does\<close>

lemmas chat_defs = chat_endpoint_def chat_try_def chat_except_def
lemmas reason_defs = reason_endpoint_def reason_try_def reason_except_def
lemmas search_defs = search_endpoint_def search_try_def
lemmas rag_chat_defs = rag_chat_endpoint_def rag_chat_try_def
lemmas step_simps = try_except_def and_then_call and_then_invoke and_then_pure raise_http_def returning_def trace_emit

lemma last_message_Nil: "last_message [] = Inl index_error"
  by (simp add: last_message_def last_item_def)

lemma first_content_Nil: "first_content [] = Inl index_error"
  by (simp add: first_content_def first_item_def)

lemma chat_empty_status: "status (respond (fst (chat_endpoint env [] st))) = 500"
  by (simp add: chat_defs step_simps last_message_Nil respond_def split: option.splits sum.splits)

lemma chat_empty_constructs:
  "logger_info env ''Processing chat request'' = None \<Longrightarrow>
   Construct Chat \<in> set (trace (snd (chat_endpoint env [] st)))"
  by (simp add: chat_defs step_simps last_message_Nil split: option.splits sum.splits)

lemma chat_empty_detail:
  "logger_info env ''Processing chat request'' = None \<Longrightarrow> create_chat_service env = Inr g \<Longrightarrow>
   logger_error env (''Chat error: '' @ exn_str index_error) = None \<Longrightarrow>
   fst (chat_endpoint env [] st) = ExcHTTP 500 ''list index out of range''"
  by (simp add: chat_defs step_simps last_message_Nil index_error_def)

lemma reason_empty_status: "status (respond (fst (reason_endpoint env [] st))) = 500"
  by (simp add: reason_defs step_simps last_message_Nil respond_def split: option.splits sum.splits)

lemma reason_empty_constructs:
  "logger_info env ''Processing reasoning request'' = None \<Longrightarrow>
   Construct Reasoner \<in> set (trace (snd (reason_endpoint env [] st)))"
  by (simp add: reason_defs step_simps last_message_Nil split: option.splits sum.splits)

lemma reason_empty_detail:
  "logger_info env ''Processing reasoning request'' = None \<Longrightarrow> create_reasoner_service env = Inr g \<Longrightarrow>
   logger_error env (''Reasoning error: '' @ exn_str index_error) = None \<Longrightarrow>
   fst (reason_endpoint env [] st) = ExcHTTP 500 ''list index out of range''"
  by (simp add: reason_defs step_simps last_message_Nil index_error_def)

lemma search_empty_status: "status (respond (fst (search_endpoint env [] st))) = 500"
  by (simp add: search_defs step_simps first_content_Nil respond_def split: option.splits sum.splits)

lemma search_empty_constructs: "Construct Search \<in> set (trace (snd (search_endpoint env [] st)))"
  by (simp add: search_defs step_simps first_content_Nil split: option.splits sum.splits)

lemma search_empty_detail:
  "SearchService env = Inr g \<Longrightarrow> fst (search_endpoint env [] st) = ExcHTTP 500 ''list index out of range''"
  by (simp add: search_defs step_simps first_content_Nil index_error_def)

lemma rag_chat_constructs: "Construct RagChat \<in> set (trace (snd (rag_chat_endpoint env msgs index_id st)))"
  by (simp add: rag_chat_defs step_simps split: option.splits sum.splits)

lemma rag_chat_forwards:
  "RAGChatService env = Inr g \<Longrightarrow> g msgs index_id = Inr ts \<Longrightarrow>
   rag_chat_endpoint env msgs index_id st =
     (Ret (StreamingResponse ts ''text/event-stream''),
      emit (StreamCall RagChat (RagArgs msgs index_id)) (emit (Construct RagChat) st))"
  by (simp add: rag_chat_defs step_simps)

lemma chat_empty_log_raises:
  "logger_info env ''Processing chat request'' = None \<Longrightarrow> create_chat_service env = Inr g \<Longrightarrow>
   logger_error env (''Chat error: '' @ exn_str index_error) = Some e' \<Longrightarrow>
   fst (chat_endpoint env [] st) = Exc e'"
  by (simp add: chat_defs step_simps last_message_Nil index_error_def)

lemma reason_empty_log_raises:
  "logger_info env ''Processing reasoning request'' = None \<Longrightarrow> create_reasoner_service env = Inr g \<Longrightarrow>
   logger_error env (''Reasoning error: '' @ exn_str index_error) = Some e' \<Longrightarrow>
   fst (reason_endpoint env [] st) = Exc e'"
  by (simp add: reason_defs step_simps last_message_Nil index_error_def)

lemma rag_chat_status:
  "status (respond (fst (rag_chat_endpoint env msgs index_id st))) = 200 \<or>
   status (respond (fst (rag_chat_endpoint env msgs index_id st))) = 500"
  by (simp add: rag_chat_defs step_simps respond_def split: option.splits sum.splits)

section \<open>Backend construction failure on \<^verbatim>\<open>/chat\<close> and \<^verbatim>\<open>/reason\<close>\<close>

text \<open>
  C7, as stated, fails on the message: the except branch calls \<^verbatim>\<open>logger.error\<close>
  before it raises the HTTPException, and when that call raises, its exception leaves the
  handler instead. The response is then the framework's generic 500, without \<^verbatim>\<open>str(e)\<close>
  of the construction failure.
\<close>

theorem construction_failure_counterexample:
  "fst (chat_endpoint env_no_backend_log_broken hello st0) = Exc log_broken \<and>
   respond (fst (chat_endpoint env_no_backend_log_broken hello st0)) =
     \<lparr>status = 500, body = InternalServerError, streamed = False\<rparr>"
  by (simp add: chat_defs step_simps respond_def env_no_backend_log_broken_def env_no_backend_def
        env_ok_def)

text \<open>
  C7, amended. When the factory call of \<^verbatim>\<open>/chat\<close> or \<^verbatim>\<open>/reason\<close> raises \<open>e\<close>,
  the response has status 500 and is not streamed, and no \<^verbatim>\<open>generate_stream\<close> call is
  made (the effects are the info log, the construction and the error log). The response
  carries \<^verbatim>\<open>str(e)\<close> as its detail when the except branch's \<^verbatim>\<open>logger.error\<close> call
  returns; when that call raises \<open>e'\<close>, the handler raises \<open>e'\<close> and the response is the
  generic 500.
\<close>

theorem construction_failure_is_500:
  "(logger_info env ''Processing chat request'' = None \<and> create_chat_service env = Inl e \<longrightarrow>
      status (respond (fst (chat_endpoint env msgs st))) = 500 \<and>
      \<not> streamed (respond (fst (chat_endpoint env msgs st))) \<and>
      trace (snd (chat_endpoint env msgs st)) =
        trace st @ [LogInfo ''Processing chat request'', Construct Chat, LogError (''Chat error: '' @ exn_str e)] \<and>
      (logger_error env (''Chat error: '' @ exn_str e) = None \<longrightarrow>
         respond (fst (chat_endpoint env msgs st)) = \<lparr>status = 500, body = Detail (exn_str e), streamed = False\<rparr>) \<and>
      (logger_error env (''Chat error: '' @ exn_str e) = Some e' \<longrightarrow>
         fst (chat_endpoint env msgs st) = Exc e' \<and>
         respond (fst (chat_endpoint env msgs st)) = \<lparr>status = 500, body = InternalServerError, streamed = False\<rparr>)) \<and>
   (logger_info env ''Processing reasoning request'' = None \<and> create_reasoner_service env = Inl e \<longrightarrow>
      status (respond (fst (reason_endpoint env msgs st))) = 500 \<and>
      \<not> streamed (respond (fst (reason_endpoint env msgs st))) \<and>
      trace (snd (reason_endpoint env msgs st)) =
        trace st @ [LogInfo ''Processing reasoning request'', Construct Reasoner, LogError (''Reasoning error: '' @ exn_str e)] \<and>
      (logger_error env (''Reasoning error: '' @ exn_str e) = None \<longrightarrow>
         respond (fst (reason_endpoint env msgs st)) = \<lparr>status = 500, body = Detail (exn_str e), streamed = False\<rparr>) \<and>
      (logger_error env (''Reasoning error: '' @ exn_str e) = Some e' \<longrightarrow>
         fst (reason_endpoint env msgs st) = Exc e' \<and>
         respond (fst (reason_endpoint env msgs st)) = \<lparr>status = 500, body = InternalServerError, streamed = False\<rparr>))"
proof (intro conjI impI; elim conjE)
  assume a: "logger_info env ''Processing chat request'' = None" "create_chat_service env = Inl e"
  show "status (respond (fst (chat_endpoint env msgs st))) = 500"
    by (simp add: chat_construct_fails[OF a] respond_def split: option.splits)
  show "\<not> streamed (respond (fst (chat_endpoint env msgs st)))"
    by (simp add: chat_construct_fails[OF a] respond_def split: option.splits)
  show "trace (snd (chat_endpoint env msgs st)) =
        trace st @ [LogInfo ''Processing chat request'', Construct Chat, LogError (''Chat error: '' @ exn_str e)]"
    by (simp add: chat_construct_fails[OF a] trace_emit)
  {
    assume "logger_error env (''Chat error: '' @ exn_str e) = None"
    then show "respond (fst (chat_endpoint env msgs st)) = \<lparr>status = 500, body = Detail (exn_str e), streamed = False\<rparr>"
      by (simp add: chat_construct_fails[OF a] respond_def)
  }
  {
    assume b: "logger_error env (''Chat error: '' @ exn_str e) = Some e'"
    then show "fst (chat_endpoint env msgs st) = Exc e'"
      by (simp add: chat_construct_fails[OF a])
    from b show "respond (fst (chat_endpoint env msgs st)) = \<lparr>status = 500, body = InternalServerError, streamed = False\<rparr>"
      by (simp add: chat_construct_fails[OF a] respond_def)
  }
next
  assume a: "logger_info env ''Processing reasoning request'' = None" "create_reasoner_service env = Inl e"
  show "status (respond (fst (reason_endpoint env msgs st))) = 500"
    by (simp add: reason_construct_fails[OF a] respond_def split: option.splits)
  show "\<not> streamed (respond (fst (reason_endpoint env msgs st)))"
    by (simp add: reason_construct_fails[OF a] respond_def split: option.splits)
  show "trace (snd (reason_endpoint env msgs st)) =
        trace st @ [LogInfo ''Processing reasoning request'', Construct Reasoner, LogError (''Reasoning error: '' @ exn_str e)]"
    by (simp add: reason_construct_fails[OF a] trace_emit)
  {
    assume "logger_error env (''Reasoning error: '' @ exn_str e) = None"
    then show "respond (fst (reason_endpoint env msgs st)) = \<lparr>status = 500, body = Detail (exn_str e), streamed = False\<rparr>"
      by (simp add: reason_construct_fails[OF a] respond_def)
  }
  {
    assume b: "logger_error env (''Reasoning error: '' @ exn_str e) = Some e'"
    then show "fst (reason_endpoint env msgs st) = Exc e'"
      by (simp add: reason_construct_fails[OF a])
    from b show "respond (fst (reason_endpoint env msgs st)) = \<lparr>status = 500, body = InternalServerError, streamed = False\<rparr>"
      by (simp add: reason_construct_fails[OF a] respond_def)
  }
qed

theorem construction_failure_is_500_witness:
  "respond (fst (chat_endpoint env_no_backend hello st0)) =
     \<lparr>status = 500, body = Detail ''missing API key'', streamed = False\<rparr> \<and>
   trace (snd (chat_endpoint env_no_backend hello st0)) =
     [LogInfo ''Processing chat request'', Construct Chat, LogError ''Chat error: missing API key''] \<and>
   respond (fst (reason_endpoint env_no_backend hello st0)) =
     \<lparr>status = 500, body = Detail ''missing API key'', streamed = False\<rparr> \<and>
   trace (snd (reason_endpoint env_no_backend hello st0)) =
     [LogInfo ''Processing reasoning request'', Construct Reasoner, LogError ''Reasoning error: missing API key'']"
  using construction_failure_is_500 [of env_no_backend missing_key hello st0 log_broken]
  by (simp add: env_no_backend_def env_ok_def missing_key_def st0_def)

section \<open>No validation of the message sequence\<close>

text \<open>
  C1, as stated, fails: no route checks the message sequence. On \<^verbatim>\<open>/chat\<close> with an
  empty sequence and working collaborators the chat backend is constructed, then
  \<^verbatim>\<open>request.messages[-1]\<close> raises IndexError inside the try block and the answer is 500.
\<close>

theorem empty_messages_counterexample:
  "status (respond (fst (chat_endpoint env_ok [] st0))) = 500 \<and>
   trace (snd (chat_endpoint env_ok [] st0)) =
     [LogInfo ''Processing chat request'', Construct Chat, LogError ''Chat error: list index out of range'']"
  by (simp add: chat_defs step_simps last_message_Nil index_error_def respond_def env_ok_def st0_def)

text \<open>
  C1, amended. For an empty message sequence no route validates anything.
  \<^verbatim>\<open>/chat\<close>, \<^verbatim>\<open>/reason\<close> and \<^verbatim>\<open>/search\<close> answer 500, never a 4xx. The
  backend constructor has been called by then: always on \<^verbatim>\<open>/search\<close>, and on
  \<^verbatim>\<open>/chat\<close> and \<^verbatim>\<open>/reason\<close> whenever \<^verbatim>\<open>logger.info\<close> returned. On
  \<^verbatim>\<open>/search\<close>, when construction succeeded, the 500 carries IndexError's message.
  On \<^verbatim>\<open>/chat\<close> and \<^verbatim>\<open>/reason\<close>, when \<^verbatim>\<open>logger.info\<close> returned and construction
  succeeded, the 500 carries that message if the except branch's \<^verbatim>\<open>logger.error\<close>
  call returns, and if that call raises \<open>e'\<close> the handler raises \<open>e'\<close> (the generic
  500). \<^verbatim>\<open>/chat-rag\<close> calls its constructor and answers 200 or 500; when construction
  succeeds and \<^verbatim>\<open>generate_stream\<close>, given the empty sequence, returns a stream, the
  answer is that stream.
\<close>

theorem empty_messages_not_validated:
  "status (respond (fst (chat_endpoint env [] st))) = 500 \<and>
   (logger_info env ''Processing chat request'' = None \<longrightarrow>
      Construct Chat \<in> set (trace (snd (chat_endpoint env [] st)))) \<and>
   (logger_info env ''Processing chat request'' = None \<and> create_chat_service env = Inr g \<and>
    logger_error env (''Chat error: '' @ exn_str index_error) = None \<longrightarrow>
      fst (chat_endpoint env [] st) = ExcHTTP 500 ''list index out of range'') \<and>
   (logger_info env ''Processing chat request'' = None \<and> create_chat_service env = Inr g \<and>
    logger_error env (''Chat error: '' @ exn_str index_error) = Some e' \<longrightarrow>
      fst (chat_endpoint env [] st) = Exc e') \<and>
   status (respond (fst (reason_endpoint env [] st))) = 500 \<and>
   (logger_info env ''Processing reasoning request'' = None \<longrightarrow>
      Construct Reasoner \<in> set (trace (snd (reason_endpoint env [] st)))) \<and>
   (logger_info env ''Processing reasoning request'' = None \<and> create_reasoner_service env = Inr h \<and>
    logger_error env (''Reasoning error: '' @ exn_str index_error) = None \<longrightarrow>
      fst (reason_endpoint env [] st) = ExcHTTP 500 ''list index out of range'') \<and>
   (logger_info env ''Processing reasoning request'' = None \<and> create_reasoner_service env = Inr h \<and>
    logger_error env (''Reasoning error: '' @ exn_str index_error) = Some e' \<longrightarrow>
      fst (reason_endpoint env [] st) = Exc e') \<and>
   status (respond (fst (search_endpoint env [] st))) = 500 \<and>
   Construct Search \<in> set (trace (snd (search_endpoint env [] st))) \<and>
   (SearchService env = Inr q \<longrightarrow>
      fst (search_endpoint env [] st) = ExcHTTP 500 ''list index out of range'') \<and>
   Construct RagChat \<in> set (trace (snd (rag_chat_endpoint env [] index_id st))) \<and>
   (status (respond (fst (rag_chat_endpoint env [] index_id st))) = 200 \<or>
    status (respond (fst (rag_chat_endpoint env [] index_id st))) = 500) \<and>
   (RAGChatService env = Inr r \<and> r [] index_id = Inr ts \<longrightarrow>
      fst (rag_chat_endpoint env [] index_id st) = Ret (StreamingResponse ts ''text/event-stream''))"
proof (intro conjI impI; (elim conjE)?)
  show "status (respond (fst (chat_endpoint env [] st))) = 500"
    by (rule chat_empty_status)
  show "status (respond (fst (reason_endpoint env [] st))) = 500"
    by (rule reason_empty_status)
  show "status (respond (fst (search_endpoint env [] st))) = 500"
    by (rule search_empty_status)
  show "Construct Search \<in> set (trace (snd (search_endpoint env [] st)))"
    by (rule search_empty_constructs)
  show "Construct RagChat \<in> set (trace (snd (rag_chat_endpoint env [] index_id st)))"
    by (rule rag_chat_constructs)
  show "status (respond (fst (rag_chat_endpoint env [] index_id st))) = 200 \<or>
    status (respond (fst (rag_chat_endpoint env [] index_id st))) = 500"
    by (rule rag_chat_status)
next
  assume "logger_info env ''Processing chat request'' = None"
  then show "Construct Chat \<in> set (trace (snd (chat_endpoint env [] st)))"
    by (rule chat_empty_constructs)
next
  assume "logger_info env ''Processing chat request'' = None" "create_chat_service env = Inr g"
    "logger_error env (''Chat error: '' @ exn_str index_error) = None"
  then show "fst (chat_endpoint env [] st) = ExcHTTP 500 ''list index out of range''"
    by (rule chat_empty_detail)
next
  assume "logger_info env ''Processing chat request'' = None" "create_chat_service env = Inr g"
    "logger_error env (''Chat error: '' @ exn_str index_error) = Some e'"
  then show "fst (chat_endpoint env [] st) = Exc e'"
    by (rule chat_empty_log_raises)
next
  assume "logger_info env ''Processing reasoning request'' = None"
  then show "Construct Reasoner \<in> set (trace (snd (reason_endpoint env [] st)))"
    by (rule reason_empty_constructs)
next
  assume "logger_info env ''Processing reasoning request'' = None" "create_reasoner_service env = Inr h"
    "logger_error env (''Reasoning error: '' @ exn_str index_error) = None"
  then show "fst (reason_endpoint env [] st) = ExcHTTP 500 ''list index out of range''"
    by (rule reason_empty_detail)
next
  assume "logger_info env ''Processing reasoning request'' = None" "create_reasoner_service env = Inr h"
    "logger_error env (''Reasoning error: '' @ exn_str index_error) = Some e'"
  then show "fst (reason_endpoint env [] st) = Exc e'"
    by (rule reason_empty_log_raises)
next
  assume "SearchService env = Inr q"
  then show "fst (search_endpoint env [] st) = ExcHTTP 500 ''list index out of range''"
    by (rule search_empty_detail)
next
  assume "RAGChatService env = Inr r" "r [] index_id = Inr ts"
  then show "fst (rag_chat_endpoint env [] index_id st) = Ret (StreamingResponse ts ''text/event-stream'')"
    by (simp add: rag_chat_forwards)
qed

theorem empty_messages_not_validated_witness:
  "status (respond (fst (chat_endpoint env_ok [] st0))) = 500 \<and>
   Construct Chat \<in> set (trace (snd (chat_endpoint env_ok [] st0))) \<and>
   fst (chat_endpoint env_ok [] st0) = ExcHTTP 500 ''list index out of range'' \<and>
   status (respond (fst (reason_endpoint env_ok [] st0))) = 500 \<and>
   Construct Reasoner \<in> set (trace (snd (reason_endpoint env_ok [] st0))) \<and>
   fst (reason_endpoint env_ok [] st0) = ExcHTTP 500 ''list index out of range'' \<and>
   status (respond (fst (search_endpoint env_ok [] st0))) = 500 \<and>
   Construct Search \<in> set (trace (snd (search_endpoint env_ok [] st0))) \<and>
   fst (search_endpoint env_ok [] st0) = ExcHTTP 500 ''list index out of range'' \<and>
   Construct RagChat \<in> set (trace (snd (rag_chat_endpoint env_ok [] ''idx1'' st0))) \<and>
   fst (rag_chat_endpoint env_ok [] ''idx1'' st0) =
     Ret (StreamingResponse (Token ''idx1'' End) ''text/event-stream'')"
  using empty_messages_not_validated
    [of env_ok st0 "\<lambda>_. Inr (Token ''hi'' End)" log_broken "\<lambda>_. Inr (Token ''so'' End)"
        "\<lambda>q. Inr (Token q End)" "''idx1''" "\<lambda>_ index_id. Inr (Token index_id End)" "Token ''idx1'' End"]
  by (simp add: env_ok_def index_error_def respond_def)

section \<open>The query of \<^verbatim>\<open>/search\<close>\<close>

lemma first_content_Cons: "first_content (m # ms) = getitem m ''content''"
  by (simp add: first_content_def first_item_def split: sum.splits)

lemma search_first_only: "search_endpoint env (m # ms) st = search_endpoint env [m] st"
  by (simp add: search_defs first_content_Cons)

lemma search_with_content:
  assumes "SearchService env = Inr g" and "map_of m ''content'' = Some c"
  shows "search_endpoint env (m # ms) st =
     (case g c of Inr ts \<Rightarrow> Ret (StreamingResponse ts ''text/event-stream'') | Inl e \<Rightarrow> ExcHTTP 500 (exn_str e),
      emit (StreamCall Search (QueryArg c)) (emit (Construct Search) st))"
  using assms
  by (simp add: search_defs step_simps first_content_Cons getitem_def split: sum.splits)

lemma search_without_content:
  assumes "SearchService env = Inr g" and "map_of m ''content'' = None"
  shows "search_endpoint env (m # ms) st = (ExcHTTP 500 (quoted ''content''), emit (Construct Search) st)"
  using assms
  by (simp add: search_defs step_simps first_content_Cons getitem_def key_error_def)

text \<open>
  C8. On \<^verbatim>\<open>/search\<close> with a non-empty message sequence the messages after the first
  have no influence at all: the handler does the same on \<open>m # ms\<close> as on \<open>[m]\<close>. When
  the search backend was constructed and the first message has a content, the one call to
  \<^verbatim>\<open>generate_stream\<close> receives exactly that content as its query, and the response is
  built from what that call returns. When the first message has no content key, no query
  is passed: the answer is 500 with KeyError's message.
\<close>

theorem search_query_is_first_content:
  "search_endpoint env (m # ms) st = search_endpoint env [m] st \<and>
   (SearchService env = Inr g \<and> map_of m ''content'' = Some c \<longrightarrow>
      trace (snd (search_endpoint env (m # ms) st)) =
        trace st @ [Construct Search, StreamCall Search (QueryArg c)] \<and>
      fst (search_endpoint env (m # ms) st) =
        (case g c of Inr ts \<Rightarrow> Ret (StreamingResponse ts ''text/event-stream'')
                   | Inl e \<Rightarrow> ExcHTTP 500 (exn_str e))) \<and>
   (SearchService env = Inr g \<and> map_of m ''content'' = None \<longrightarrow>
      trace (snd (search_endpoint env (m # ms) st)) = trace st @ [Construct Search] \<and>
      fst (search_endpoint env (m # ms) st) = ExcHTTP 500 (quoted ''content''))"
proof (intro conjI impI; (elim conjE)?)
  show "search_endpoint env (m # ms) st = search_endpoint env [m] st"
    by (rule search_first_only)
next
  assume a: "SearchService env = Inr g" "map_of m ''content'' = Some c"
  show "trace (snd (search_endpoint env (m # ms) st)) =
        trace st @ [Construct Search, StreamCall Search (QueryArg c)]"
    by (simp add: search_with_content[OF a] trace_emit)
  show "fst (search_endpoint env (m # ms) st) =
        (case g c of Inr ts \<Rightarrow> Ret (StreamingResponse ts ''text/event-stream'')
                   | Inl e \<Rightarrow> ExcHTTP 500 (exn_str e))"
    by (simp add: search_with_content[OF a])
next
  assume a: "SearchService env = Inr g" "map_of m ''content'' = None"
  show "trace (snd (search_endpoint env (m # ms) st)) = trace st @ [Construct Search]"
    by (simp add: search_without_content[OF a] trace_emit)
  show "fst (search_endpoint env (m # ms) st) = ExcHTTP 500 (quoted ''content'')"
    by (simp add: search_without_content[OF a])
qed

theorem search_query_is_first_content_witness:
  "search_endpoint env_ok ([(''role'', ''user''), (''content'', ''hello'')] # [[(''content'', ''later'')]]) st0 =
     search_endpoint env_ok [[(''role'', ''user''), (''content'', ''hello'')]] st0 \<and>
   trace (snd (search_endpoint env_ok ([(''role'', ''user''), (''content'', ''hello'')] # [[(''content'', ''later'')]]) st0)) =
     [Construct Search, StreamCall Search (QueryArg ''hello'')] \<and>
   fst (search_endpoint env_ok ([(''role'', ''user''), (''content'', ''hello'')] # [[(''content'', ''later'')]]) st0) =
     Ret (StreamingResponse (Token ''hello'' End) ''text/event-stream'')"
proof -
  have h: "SearchService env_ok = Inr (\<lambda>q. Inr (Token q End))"
    "map_of [(''role'', ''user''), (''content'', ''hello'')] ''content'' = Some ''hello''"
    by (simp_all add: env_ok_def)
  have t: "trace st0 = []"
    by (simp add: st0_def)
  note T = search_query_is_first_content
      [of env_ok "[(''role'', ''user''), (''content'', ''hello'')]" "[[(''content'', ''later'')]]" st0
          "\<lambda>q. Inr (Token q End)" "''hello''"]
  have a: "search_endpoint env_ok ([(''role'', ''user''), (''content'', ''hello'')] # [[(''content'', ''later'')]]) st0 =
     search_endpoint env_ok [[(''role'', ''user''), (''content'', ''hello'')]] st0"
    using T by blast
  have b: "trace (snd (search_endpoint env_ok ([(''role'', ''user''), (''content'', ''hello'')] # [[(''content'', ''later'')]]) st0)) =
        trace st0 @ [Construct Search, StreamCall Search (QueryArg ''hello'')]"
    using T h by blast
  have c: "fst (search_endpoint env_ok ([(''role'', ''user''), (''content'', ''hello'')] # [[(''content'', ''later'')]]) st0) =
        (case Inr (Token ''hello'' End) of Inr ts \<Rightarrow> Ret (StreamingResponse ts ''text/event-stream'')
                   | Inl e \<Rightarrow> ExcHTTP 500 (exn_str e))"
    using T h by blast
  show ?thesis
    using a b c by (simp add: t)
qed


section \<open>The upload handler, step by step\<close>

lemma and_then_open_file:
  "and_then (open_file env p) k st =
     (case open_wb env p of
        Some e \<Rightarrow> (Exc e, emit (OpenWrite p) st)
      | None \<Rightarrow> k () (emit (OpenWrite p) (st\<lparr>files := (files st)(p \<mapsto> [])\<rparr>)))"
  by (simp add: and_then_def open_file_def split: option.splits)

lemma and_then_write_file:
  "and_then (write_file env p content) k st =
     (case write_bytes env p content of
        Some (e, n) \<Rightarrow> (Exc e, st\<lparr>files := (files st)(p \<mapsto> take n content)\<rparr>)
      | None \<Rightarrow> k () (st\<lparr>files := (files st)(p \<mapsto> content)\<rparr>))"
  by (simp add: and_then_def write_file_def split: option.splits)

lemmas upload_steps = and_then_call and_then_invoke and_then_pure and_then_open_file and_then_write_file
  returning_def

lemma merge_result_PDict: "merge_result a (PDict kvs) = Inr (dict_merge a kvs)"
  by (simp add: merge_result_def)

lemma upload_try_ingested:
  assumes "ingested env file content kvs"
  shows "fst (upload_try env file st) =
           (case log_structured env ''file_upload'' (upload_fields file content) of
              None \<Rightarrow> Ret (Json (dict_merge (file_info env file content) kvs))
            | Some e \<Rightarrow> Exc e)"
    and "files (snd (upload_try env file st)) = (files st)(file_path env file \<mapsto> content)"
    and "trace (snd (upload_try env file st)) =
           trace st @ [LogInfo (''Uploading file: '' @ filename file), Mkdir, ReadUpload,
             OpenWrite (file_path env file), Printed (file_path env file), Construct Rag,
             ProcessFile (file_info env file content),
             LogStructured ''file_upload'' (upload_fields file content)]"
  using assms
  by (auto simp: ingested_def upload_try_def upload_steps merge_result_PDict emit_def
        split: sum.splits option.splits)

lemma upload_try_cases:
  "(\<exists>e. fst (upload_try env file st) = Exc e) \<or>
   (\<exists>content kvs. ingested env file content kvs \<and>
      log_structured env ''file_upload'' (upload_fields file content) = None \<and>
      fst (upload_try env file st) = Ret (Json (dict_merge (file_info env file content) kvs)))"
  by (auto simp: ingested_def upload_try_def upload_steps merge_result_def
        split: sum.splits option.splits pyval.splits)


lemma upload_file_of_Exc:
  assumes "fst (upload_try env file st) = Exc e"
  shows "upload_file env file st =
     (case logger_error env (''Upload failed: '' @ exn_str e) of
        None \<Rightarrow> Ret (Json [(''error'', PStr (exn_str e))])
      | Some e' \<Rightarrow> Exc e',
      emit (LogError (''Upload failed: '' @ exn_str e)) (snd (upload_try env file st)))"
proof -
  obtain st1 where "upload_try env file st = (Exc e, st1)"
    using assms by (cases "upload_try env file st") simp
  then show ?thesis
    by (simp add: upload_file_def try_except_def upload_except_def and_then_call returning_def
          split: option.splits)
qed

lemma upload_file_of_Ret:
  assumes "fst (upload_try env file st) = Ret v"
  shows "upload_file env file st = upload_try env file st"
proof -
  obtain st1 where "upload_try env file st = (Ret v, st1)"
    using assms by (cases "upload_try env file st") simp
  then show ?thesis
    by (simp add: upload_file_def try_except_def)
qed

lemma try_except_upload_of_Exc:
  assumes "fst (upload_try env file st) = Exc e"
  shows "fst (try_except (upload_try env file) (upload_except env) st) =
     (case logger_error env (''Upload failed: '' @ exn_str e) of
        None \<Rightarrow> Ret (Json [(''error'', PStr (exn_str e))])
      | Some e' \<Rightarrow> Exc e')"
proof -
  obtain st1 where "upload_try env file st = (Exc e, st1)"
    using assms by (cases "upload_try env file st") simp
  then show ?thesis
    by (simp add: try_except_def upload_except_def and_then_call returning_def split: option.splits)
qed

lemma try_except_upload_of_Ret:
  assumes "fst (upload_try env file st) = Ret v"
  shows "fst (try_except (upload_try env file) (upload_except env) st) = Ret v"
proof -
  obtain st1 where "upload_try env file st = (Ret v, st1)"
    using assms by (cases "upload_try env file st") simp
  then show ?thesis
    by (simp add: try_except_def)
qed

text \<open>Each step of the try block that can raise, raising.\<close>

lemma upload_step_failures:
  "logger_info env (''Uploading file: '' @ filename file) = Some e \<Longrightarrow> fst (upload_try env file st) = Exc e"
  "logger_info env (''Uploading file: '' @ filename file) = None \<Longrightarrow> mkdir env = Some e \<Longrightarrow>
     fst (upload_try env file st) = Exc e"
  "logger_info env (''Uploading file: '' @ filename file) = None \<Longrightarrow> mkdir env = None \<Longrightarrow>
     read_body file = Inl e \<Longrightarrow> fst (upload_try env file st) = Exc e"
  "logger_info env (''Uploading file: '' @ filename file) = None \<Longrightarrow> mkdir env = None \<Longrightarrow>
     read_body file = Inr content \<Longrightarrow> open_wb env (file_path env file) = Some e \<Longrightarrow>
     fst (upload_try env file st) = Exc e"
  "logger_info env (''Uploading file: '' @ filename file) = None \<Longrightarrow> mkdir env = None \<Longrightarrow>
     read_body file = Inr content \<Longrightarrow> open_wb env (file_path env file) = None \<Longrightarrow>
     write_bytes env (file_path env file) content = Some (e, n) \<Longrightarrow>
     fst (upload_try env file st) = Exc e"
  "logger_info env (''Uploading file: '' @ filename file) = None \<Longrightarrow> mkdir env = None \<Longrightarrow>
     read_body file = Inr content \<Longrightarrow> open_wb env (file_path env file) = None \<Longrightarrow>
     write_bytes env (file_path env file) content = None \<Longrightarrow>
     print_out env (file_path env file) = None \<Longrightarrow> RAGService env = Inl e \<Longrightarrow>
     fst (upload_try env file st) = Exc e"
  "logger_info env (''Uploading file: '' @ filename file) = None \<Longrightarrow> mkdir env = None \<Longrightarrow>
     read_body file = Inr content \<Longrightarrow> open_wb env (file_path env file) = None \<Longrightarrow>
     write_bytes env (file_path env file) content = None \<Longrightarrow>
     print_out env (file_path env file) = None \<Longrightarrow> RAGService env = Inr process_file \<Longrightarrow>
     process_file (file_info env file content) = Inl e \<Longrightarrow>
     fst (upload_try env file st) = Exc e"
  "logger_info env (''Uploading file: '' @ filename file) = None \<Longrightarrow> mkdir env = None \<Longrightarrow>
     read_body file = Inr content \<Longrightarrow> open_wb env (file_path env file) = None \<Longrightarrow>
     write_bytes env (file_path env file) content = None \<Longrightarrow>
     print_out env (file_path env file) = None \<Longrightarrow> RAGService env = Inr process_file \<Longrightarrow>
     process_file (file_info env file content) = Inr rag_result \<Longrightarrow>
     merge_result (file_info env file content) rag_result = Inl e \<Longrightarrow>
     fst (upload_try env file st) = Exc e"
  by (simp_all add: upload_try_def upload_steps)

section \<open>A failed upload\<close>

text \<open>
  C3, as stated, fails: the except branch of the upload calls \<^verbatim>\<open>logger.error\<close> before
  it returns the error object, and when that call raises, its exception leaves the
  handler. Here the write fails and the logger raises: the answer is 500, not an error
  object with status 200.
\<close>

theorem upload_failure_counterexample:
  "fst (upload_file env_write_fails_log_broken notes_txt st0) = Exc log_broken \<and>
   status (respond (fst (upload_file env_write_fails_log_broken notes_txt st0))) = 500"
proof -
  have a: "fst (upload_try env_write_fails_log_broken notes_txt st0) = Exc disk_full"
    by (rule upload_step_failures(5)[where content = "[1, 2, 3]" and n = 1])
       (simp_all add: env_write_fails_log_broken_def env_write_fails_def env_ok_def notes_txt_def)
  have b: "\<And>m. logger_error env_write_fails_log_broken m = Some log_broken"
    by (simp add: env_write_fails_log_broken_def)
  show ?thesis
    by (simp add: upload_file_of_Exc[OF a] b respond_def)
qed

text \<open>
  C3, amended. When a step of the upload's try block raises \<open>e\<close> (the steps that can
  raise are listed in \<open>upload_step_failures\<close>: the info log, the directory creation,
  reading the body, opening and writing the file, the print, constructing and calling the
  indexing collaborator, the merge; deriving the filename and the metadata cannot raise),
  the except branch catches it and calls \<^verbatim>\<open>logger.error\<close> with
  \<^verbatim>\<open>Upload failed: str(e)\<close>. When that call returns, the handler returns
  \<^verbatim>\<open>{"error": str(e)}\<close>, a JSON body with status 200. When that call raises \<open>e'\<close>, the
  handler raises \<open>e'\<close> and the answer is the generic 500.
\<close>

theorem upload_failure_is_logged_then_reported:
  assumes "fst (upload_try env file st) = Exc e"
  shows "trace (snd (upload_file env file st)) =
           trace (snd (upload_try env file st)) @ [LogError (''Upload failed: '' @ exn_str e)] \<and>
         (logger_error env (''Upload failed: '' @ exn_str e) = None \<longrightarrow>
            fst (upload_file env file st) = Ret (Json [(''error'', PStr (exn_str e))]) \<and>
            respond (fst (upload_file env file st)) =
              \<lparr>status = 200, body = JsonBody [(''error'', PStr (exn_str e))], streamed = False\<rparr>) \<and>
         (logger_error env (''Upload failed: '' @ exn_str e) = Some e' \<longrightarrow>
            fst (upload_file env file st) = Exc e' \<and>
            respond (fst (upload_file env file st)) =
              \<lparr>status = 500, body = InternalServerError, streamed = False\<rparr>)"
  by (simp add: upload_file_of_Exc[OF assms] respond_def trace_emit)

theorem upload_failure_is_logged_then_reported_witness:
  "fst (upload_file env_write_fails notes_txt st0) =
     Ret (Json [(''error'', PStr ''No space left on device'')]) \<and>
   respond (fst (upload_file env_write_fails notes_txt st0)) =
     \<lparr>status = 200, body = JsonBody [(''error'', PStr ''No space left on device'')], streamed = False\<rparr>"
proof -
  have a: "fst (upload_try env_write_fails notes_txt st0) = Exc disk_full"
    by (rule upload_step_failures(5)[where content = "[1, 2, 3]" and n = 1])
       (simp_all add: env_write_fails_def env_ok_def notes_txt_def)
  have b: "logger_error env_write_fails (''Upload failed: '' @ exn_str disk_full) = None"
    by (simp add: env_write_fails_def env_ok_def)
  show ?thesis
    using upload_failure_is_logged_then_reported[OF a, of log_broken] b
    by (simp add: disk_full_def respond_def)
qed


section \<open>What the upload handler returns\<close>

lemma upload_try_never_falls_through: "fst (upload_try env file st) \<noteq> Normal r"
  using upload_try_cases[of env "file" st] by auto

text \<open>
  C10, as stated, fails in its first half: not every execution returns. Here the indexing
  collaborator cannot be constructed and \<^verbatim>\<open>logger.error\<close> raises in the except branch:
  the handler raises the logger's exception and returns nothing.
\<close>

theorem upload_json_counterexample:
  "fst (upload_file env_rag_down_log_broken notes_txt st0) = Exc log_broken"
proof -
  have a: "fst (upload_try env_rag_down_log_broken notes_txt st0) = Exc missing_key"
    by (rule upload_step_failures(6)[where content = "[1, 2, 3]"])
       (simp_all add: env_rag_down_log_broken_def env_ok_def notes_txt_def)
  have b: "\<And>m. logger_error env_rag_down_log_broken m = Some log_broken"
    by (simp add: env_rag_down_log_broken_def)
  show ?thesis
    by (simp add: upload_file_of_Exc[OF a] b)
qed

text \<open>
  C10, amended. Every execution of the upload handler ends in one of three ways: every
  step up to the merge returned and it returns the merged dict; or a step of the try
  block raised \<open>e\<close>, \<^verbatim>\<open>logger.error\<close> returned, and it returns
  \<^verbatim>\<open>{"error": str(e)}\<close>; or a step raised, \<^verbatim>\<open>logger.error\<close> raised \<open>e'\<close>, and the
  handler raises \<open>e'\<close>. The statement after the try statement is unreachable on every
  path: the try statement never falls through, and the handler never returns the
  \<^verbatim>\<open>data: ...\<close> string.
\<close>

theorem upload_returns_json_object:
  "(\<forall>r. fst (try_except (upload_try env file) (upload_except env) st) \<noteq> Normal r) \<and>
   (\<forall>s. fst (upload_file env file st) \<noteq> Ret (Text s)) \<and>
   ((\<exists>content kvs. ingested env file content kvs \<and>
        fst (upload_file env file st) = Ret (Json (dict_merge (file_info env file content) kvs))) \<or>
    (\<exists>e. fst (upload_try env file st) = Exc e \<and>
        logger_error env (''Upload failed: '' @ exn_str e) = None \<and>
        fst (upload_file env file st) = Ret (Json [(''error'', PStr (exn_str e))])) \<or>
    (\<exists>e e'. fst (upload_try env file st) = Exc e \<and>
        logger_error env (''Upload failed: '' @ exn_str e) = Some e' \<and>
        fst (upload_file env file st) = Exc e'))"
proof -
  consider (raised) e where "fst (upload_try env file st) = Exc e"
    | (returned) content kvs where "ingested env file content kvs"
        "fst (upload_try env file st) = Ret (Json (dict_merge (file_info env file content) kvs))"
    using upload_try_cases[of env "file" st] by blast
  then show ?thesis
  proof cases
    case raised
    have "\<forall>r. fst (try_except (upload_try env file) (upload_except env) st) \<noteq> Normal r"
      by (simp add: try_except_upload_of_Exc[OF raised] split: option.splits)
    moreover have "\<forall>s. fst (upload_file env file st) \<noteq> Ret (Text s)"
      by (simp add: upload_file_of_Exc[OF raised] split: option.splits)
    moreover have "logger_error env (''Upload failed: '' @ exn_str e) = None \<Longrightarrow>
        fst (upload_file env file st) = Ret (Json [(''error'', PStr (exn_str e))])"
      by (simp add: upload_file_of_Exc[OF raised])
    moreover have "\<And>e'. logger_error env (''Upload failed: '' @ exn_str e) = Some e' \<Longrightarrow>
        fst (upload_file env file st) = Exc e'"
      by (simp add: upload_file_of_Exc[OF raised])
    ultimately show ?thesis
      using raised by (cases "logger_error env (''Upload failed: '' @ exn_str e)") blast+
  next
    case returned
    have "\<forall>r. fst (try_except (upload_try env file) (upload_except env) st) \<noteq> Normal r"
      by (simp add: try_except_upload_of_Ret[OF returned(2)])
    moreover have "fst (upload_file env file st) =
        Ret (Json (dict_merge (file_info env file content) kvs))"
      by (simp add: upload_file_of_Ret[OF returned(2)] returned(2))
    ultimately show ?thesis
      using returned(1) by auto
  qed
qed


section \<open>The merge of file record and ingestion result\<close>

lemma dict_merge_Cons: "dict_merge a ((k, v) # b) = dict_merge (AList.update k v a) b"
  by (simp add: dict_merge_def)

lemma map_of_dict_merge:
  "map_of (dict_merge a b) k = (case map_of (rev b) k of Some v \<Rightarrow> Some v | None \<Rightarrow> map_of a k)"
proof (induction b arbitrary: a)
  case Nil
  then show ?case by (simp add: dict_merge_def)
next
  case (Cons p b)
  obtain k' v' where p: "p = (k', v')" by (cases p)
  show ?case
    by (simp add: p dict_merge_Cons Cons.IH update_conv' map_add_def split: option.splits)
qed

lemma map_of_dict_merge_other:
  assumes "k \<notin> fst ` set b"
  shows "map_of (dict_merge a b) k = map_of a k"
proof -
  have "map_of (rev b) k = None"
    using assms by (simp add: map_of_eq_None_iff)
  then show ?thesis
    by (simp add: map_of_dict_merge)
qed

section \<open>The path written and the path reported\<close>

lemma digit_code: "d < 10 \<Longrightarrow> of_char (digit d) = 48 + d"
proof -
  assume "d < 10"
  then have "d \<in> {0, 1, 2, 3, 4, 5, 6, 7, 8, 9}"
    by auto
  then show ?thesis
    by (auto simp: digit_def)
qed

lemma digit_not_backslash: "d < 10 \<Longrightarrow> digit d \<noteq> CHR 0x5C"
proof
  assume d: "d < 10" and e: "digit d = CHR 0x5C"
  have "(of_char (digit d) :: nat) = of_char (CHR 0x5C)"
    using e by simp
  then have "48 + d = 92"
    by (simp add: digit_code[OF d])
  then show False
    using d by simp
qed

lemma backslash_not_digit: "CHR 0x5C \<noteq> digit (n mod 10)"
  using digit_not_backslash[of "n mod 10"] by auto

lemma strftime_no_backslash: "CHR 0x5C \<notin> set (strftime dt)"
  by (simp add: strftime_def pad2_def pad4_def backslash_not_digit)

lemma split_on_chars: "\<Union> (set ` set (split_on c s)) \<subseteq> set s"
proof (induction s)
  case Nil
  then show ?case by simp
next
  case (Cons x s)
  then show ?case
    by (cases "split_on c s") auto
qed

lemma path_parts_chars: "p \<in> set (path_parts s) \<Longrightarrow> set p \<subseteq> set s"
  using split_on_chars[of "CHR ''/''" s] by (auto simp: path_parts_def)

lemma concat_parts_no_backslash:
  "(\<And>p. p \<in> set ps \<Longrightarrow> CHR 0x5C \<notin> set p) \<Longrightarrow>
   CHR 0x5C \<notin> set (concat (map (\<lambda>p. ''/'' @ p) ps))"
  by (induction ps) auto

lemma file_path_str_no_backslash:
  assumes "CHR 0x5C \<notin> set name"
  shows "CHR 0x5C \<notin> set (file_path_str name)"
proof -
  have "\<And>p. p \<in> set (path_parts name) \<Longrightarrow> CHR 0x5C \<notin> set p"
    using assms path_parts_chars by blast
  then have "CHR 0x5C \<notin> set (concat (map (\<lambda>p. ''/'' @ p) (path_parts name)))"
    by (rule concat_parts_no_backslash)
  then show ?thesis
    by (simp add: file_path_str_def UPLOAD_DIR_def)
qed

lemma replace_backslash_id: "CHR 0x5C \<notin> set s \<Longrightarrow> replace_backslash s = s"
  by (induction s) (auto simp: replace_backslash_def)

lemma reported_path_is_file_path:
  assumes "CHR 0x5C \<notin> set (filename file)"
  shows "replace_backslash (file_path env file) = file_path env file"
proof -
  have "CHR 0x5C \<notin> set (stored_filename (now env) (filename file))"
    using assms strftime_no_backslash by (simp add: stored_filename_def)
  then show ?thesis
    unfolding file_path_def by (intro replace_backslash_id file_path_str_no_backslash)
qed

section \<open>An upload whose steps all return: its result\<close>

lemma upload_file_ingested:
  assumes "ingested env file content kvs"
    and "log_structured env ''file_upload'' (upload_fields file content) = None"
  shows "fst (upload_file env file st) = Ret (Json (dict_merge (file_info env file content) kvs))"
    and "files (snd (upload_file env file st)) = (files st)(file_path env file \<mapsto> content)"
proof -
  have r: "fst (upload_try env file st) = Ret (Json (dict_merge (file_info env file content) kvs))"
    using upload_try_ingested(1)[OF assms(1), of st] assms(2) by simp
  show "fst (upload_file env file st) = Ret (Json (dict_merge (file_info env file content) kvs))"
    by (simp add: upload_file_of_Ret[OF r] r)
  show "files (snd (upload_file env file st)) = (files st)(file_path env file \<mapsto> content)"
    by (simp add: upload_file_of_Ret[OF r] upload_try_ingested(2)[OF assms(1)])
qed

lemma file_info_fields:
  "map_of (file_info env file content) ''filename'' = Some (PStr (stored_filename (now env) (filename file)))"
  "map_of (file_info env file content) ''size'' = Some (PInt (int (length content)))"
  "map_of (file_info env file content) ''type'' = Some (opt_str (content_type file))"
  "map_of (file_info env file content) ''path'' = Some (PStr (replace_backslash (file_path env file)))"
  by (simp_all add: file_info_def)


section \<open>Evaluating the upload at concrete inputs\<close>

lemma noon_path: "file_path env_ok notes_txt = ''uploads/20240309_120007_a.txt''"
  by (simp add: file_path_def stored_filename_def strftime_def pad2_def pad4_def digit_def noon_def
        env_ok_def notes_txt_def file_path_str_def path_parts_def UPLOAD_DIR_def)

lemma noon_name: "stored_filename noon ''a.txt'' = ''20240309_120007_a.txt''"
  by (simp add: stored_filename_def strftime_def pad2_def pad4_def digit_def noon_def)

lemma ingested_rag_filename: "ingested env_rag_filename notes_txt [1, 2, 3] [(''filename'', PStr ''other.txt'')]"
  by (simp add: ingested_def env_rag_filename_def env_ok_def notes_txt_def)

lemma ingested_ok: "ingested env_ok notes_txt [1, 2, 3] [(''index_id'', PStr ''idx1'')]"
  by (simp add: ingested_def env_ok_def notes_txt_def)

lemma backslash_path:
  "file_path env_rag_size backslash_txt = ''uploads/20240309_120007_a'' @ [CHR 0x5C] @ ''b.txt''"
  by (simp add: file_path_def stored_filename_def strftime_def pad2_def pad4_def digit_def noon_def
        env_rag_size_def env_ok_def backslash_txt_def file_path_str_def path_parts_def UPLOAD_DIR_def)

lemma ingested_rag_size: "ingested env_rag_size backslash_txt [1, 2, 3] [(''size'', PInt 0)]"
  by (simp add: ingested_def env_rag_size_def env_ok_def backslash_txt_def)

section \<open>Identity fields in the merged response\<close>

text \<open>
  C4, as stated, fails: \<^verbatim>\<open>{**file_info, **rag_result}\<close> gives every key of the
  ingestion result the ingestion result's value. Here the collaborator returns a
  \<^verbatim>\<open>filename\<close> of its own, and the response carries it in place of the stored filename.
\<close>

theorem merged_identity_counterexample:
  "fst (upload_file env_rag_filename notes_txt st0) =
     Ret (Json [(''filename'', PStr ''other.txt''),
                (''original_name'', PStr ''a.txt''),
                (''size'', PInt 3),
                (''type'', PStr ''text/plain''),
                (''path'', PStr ''uploads/20240309_120007_a.txt'')]) \<and>
   stored_filename (now env_rag_filename) (filename notes_txt) = ''20240309_120007_a.txt''"
proof -
  have l: "log_structured env_rag_filename ''file_upload'' (upload_fields notes_txt [1, 2, 3]) = None"
    by (simp add: env_rag_filename_def env_ok_def)
  have p: "file_path env_rag_filename notes_txt = ''uploads/20240309_120007_a.txt''"
    using noon_path by (simp add: file_path_def env_rag_filename_def)
  have f: "filename notes_txt = ''a.txt''" "content_type notes_txt = Some ''text/plain''"
    by (simp_all add: notes_txt_def)
  have n: "stored_filename (now env_rag_filename) ''a.txt'' = ''20240309_120007_a.txt''"
    using noon_name by (simp add: env_rag_filename_def env_ok_def)
  have "file_info env_rag_filename notes_txt [1, 2, 3] =
      [(''filename'', PStr ''20240309_120007_a.txt''), (''original_name'', PStr ''a.txt''),
       (''size'', PInt 3), (''type'', PStr ''text/plain''),
       (''path'', PStr ''uploads/20240309_120007_a.txt'')]"
    by (simp add: file_info_def p n f replace_backslash_def opt_str_def)
  then show ?thesis
    by (simp add: upload_file_ingested(1)[OF ingested_rag_filename l] n f dict_merge_def)
qed

text \<open>
  C4, amended. For an upload in which every step of the try block returned and the
  ingestion result is a dict, the response is the ingestion result merged over the file
  record: a key the ingestion result has takes its value there (the last one, should the
  key be repeated), every other key keeps the file record's value. So the response's
  \<^verbatim>\<open>filename\<close> is the stored filename when the ingestion result has no
  \<^verbatim>\<open>filename\<close> key, and its \<^verbatim>\<open>path\<close> is the file record's path when the ingestion
  result has no \<^verbatim>\<open>path\<close> key.
\<close>

theorem merged_response_fields:
  assumes "ingested env file content kvs"
    and "log_structured env ''file_upload'' (upload_fields file content) = None"
  shows "\<exists>d. fst (upload_file env file st) = Ret (Json d) \<and>
     (\<forall>k. map_of d k =
        (case map_of (rev kvs) k of Some v \<Rightarrow> Some v | None \<Rightarrow> map_of (file_info env file content) k)) \<and>
     (''filename'' \<notin> fst ` set kvs \<longrightarrow>
        map_of d ''filename'' = Some (PStr (stored_filename (now env) (filename file)))) \<and>
     (''path'' \<notin> fst ` set kvs \<longrightarrow>
        map_of d ''path'' = Some (PStr (replace_backslash (file_path env file))))"
proof (intro exI conjI allI impI)
  show "fst (upload_file env file st) = Ret (Json (dict_merge (file_info env file content) kvs))"
    by (rule upload_file_ingested(1)[OF assms])
  show "map_of (dict_merge (file_info env file content) kvs) k =
        (case map_of (rev kvs) k of Some v \<Rightarrow> Some v | None \<Rightarrow> map_of (file_info env file content) k)" for k
    by (rule map_of_dict_merge)
  show "map_of (dict_merge (file_info env file content) kvs) ''filename'' =
        Some (PStr (stored_filename (now env) (filename file)))" if "''filename'' \<notin> fst ` set kvs"
    by (simp add: map_of_dict_merge_other[OF that] file_info_fields)
  show "map_of (dict_merge (file_info env file content) kvs) ''path'' =
        Some (PStr (replace_backslash (file_path env file)))" if "''path'' \<notin> fst ` set kvs"
    by (simp add: map_of_dict_merge_other[OF that] file_info_fields)
qed

theorem merged_response_fields_witness:
  "\<exists>d. fst (upload_file env_ok notes_txt st0) = Ret (Json d) \<and>
     map_of d ''index_id'' = Some (PStr ''idx1'') \<and>
     map_of d ''filename'' = Some (PStr ''20240309_120007_a.txt'') \<and>
     map_of d ''path'' = Some (PStr ''uploads/20240309_120007_a.txt'')"
proof -
  have l: "log_structured env_ok ''file_upload'' (upload_fields notes_txt [1, 2, 3]) = None"
    by (simp add: env_ok_def)
  have n: "stored_filename (now env_ok) (filename notes_txt) = ''20240309_120007_a.txt''"
    using noon_name by (simp add: env_ok_def notes_txt_def)
  have p: "replace_backslash (file_path env_ok notes_txt) = ''uploads/20240309_120007_a.txt''"
    by (simp add: noon_path replace_backslash_def)
  from merged_response_fields[OF ingested_ok l, of st0]
  obtain d where d: "fst (upload_file env_ok notes_txt st0) = Ret (Json d)"
    "\<And>k. map_of d k =
        (case map_of (rev [(''index_id'', PStr ''idx1'')]) k of Some v \<Rightarrow> Some v
         | None \<Rightarrow> map_of (file_info env_ok notes_txt [1, 2, 3]) k)"
    "map_of d ''filename'' = Some (PStr (stored_filename (now env_ok) (filename notes_txt)))"
    "map_of d ''path'' = Some (PStr (replace_backslash (file_path env_ok notes_txt)))"
    by auto
  have "map_of d ''index_id'' = Some (PStr ''idx1'')"
    by (simp add: d(2))
  then show ?thesis
    using d(1,3,4) n p by auto
qed

section \<open>Size, type and path of a stored upload\<close>

text \<open>
  C6, as stated, fails twice at this input: three bytes are sent under a name with a
  backslash and the collaborator returns a \<^verbatim>\<open>size\<close> of its own. The response's size
  is the collaborator's 0, not 3, and its path, with the backslash replaced by a slash,
  names no file: the bytes are at the path with the backslash.
\<close>

theorem upload_round_trip_counterexample:
  "fst (upload_file env_rag_size backslash_txt st0) =
     Ret (Json [(''filename'', PStr (''20240309_120007_a'' @ [CHR 0x5C] @ ''b.txt'')),
                (''original_name'', PStr (''a'' @ [CHR 0x5C] @ ''b.txt'')),
                (''size'', PInt 0),
                (''type'', PStr ''text/plain''),
                (''path'', PStr ''uploads/20240309_120007_a/b.txt'')]) \<and>
   read_body backslash_txt = Inr [1, 2, 3] \<and>
   files (snd (upload_file env_rag_size backslash_txt st0)) ''uploads/20240309_120007_a/b.txt'' = None \<and>
   files (snd (upload_file env_rag_size backslash_txt st0))
     (''uploads/20240309_120007_a'' @ [CHR 0x5C] @ ''b.txt'') = Some [1, 2, 3]"
proof -
  have l: "log_structured env_rag_size ''file_upload'' (upload_fields backslash_txt [1, 2, 3]) = None"
    by (simp add: env_rag_size_def env_ok_def)
  have f: "filename backslash_txt = ''a'' @ [CHR 0x5C] @ ''b.txt''"
    "content_type backslash_txt = Some ''text/plain''" "read_body backslash_txt = Inr [1, 2, 3]"
    by (simp_all add: backslash_txt_def)
  have n: "stored_filename (now env_rag_size) (''a'' @ [CHR 0x5C] @ ''b.txt'') =
      ''20240309_120007_a'' @ [CHR 0x5C] @ ''b.txt''"
    by (simp add: stored_filename_def strftime_def pad2_def pad4_def digit_def noon_def
          env_rag_size_def env_ok_def)
  have i: "file_info env_rag_size backslash_txt [1, 2, 3] =
      [(''filename'', PStr (''20240309_120007_a'' @ [CHR 0x5C] @ ''b.txt'')),
       (''original_name'', PStr (''a'' @ [CHR 0x5C] @ ''b.txt'')),
       (''size'', PInt 3), (''type'', PStr ''text/plain''),
       (''path'', PStr ''uploads/20240309_120007_a/b.txt'')]"
    unfolding file_info_def backslash_path f n by (simp add: replace_backslash_def opt_str_def)
  have r: "fst (upload_file env_rag_size backslash_txt st0) =
     Ret (Json [(''filename'', PStr (''20240309_120007_a'' @ [CHR 0x5C] @ ''b.txt'')),
                (''original_name'', PStr (''a'' @ [CHR 0x5C] @ ''b.txt'')),
                (''size'', PInt 0),
                (''type'', PStr ''text/plain''),
                (''path'', PStr ''uploads/20240309_120007_a/b.txt'')])"
    unfolding upload_file_ingested(1)[OF ingested_rag_size l] i by (simp add: dict_merge_def)
  have s: "files (snd (upload_file env_rag_size backslash_txt st0)) =
      (files st0)((''uploads/20240309_120007_a'' @ [CHR 0x5C] @ ''b.txt'') \<mapsto> [1, 2, 3])"
    unfolding upload_file_ingested(2)[OF ingested_rag_size l] backslash_path by (rule refl)
  show ?thesis
    unfolding r s by (simp add: f st0_def)
qed

text \<open>
  C6, amended. For an upload in which every step of the try block returned and the
  ingestion result is a dict: the file at the handler's \<^verbatim>\<open>file_path\<close> holds exactly the
  bytes that were read; the response's \<^verbatim>\<open>size\<close> is their number when the ingestion
  result has no \<^verbatim>\<open>size\<close> key; its \<^verbatim>\<open>type\<close> is the declared content type (None when
  none was declared) when the ingestion result has no \<^verbatim>\<open>type\<close> key; and its
  \<^verbatim>\<open>path\<close> is that \<^verbatim>\<open>file_path\<close> when the ingestion result has no \<^verbatim>\<open>path\<close> key
  and the original name has no backslash.
\<close>

theorem upload_round_trip:
  assumes "ingested env file content kvs"
    and "log_structured env ''file_upload'' (upload_fields file content) = None"
  shows "files (snd (upload_file env file st)) (file_path env file) = Some content \<and>
    (\<exists>d. fst (upload_file env file st) = Ret (Json d) \<and>
      (''size'' \<notin> fst ` set kvs \<longrightarrow> map_of d ''size'' = Some (PInt (int (length content)))) \<and>
      (''type'' \<notin> fst ` set kvs \<longrightarrow> map_of d ''type'' = Some (opt_str (content_type file))) \<and>
      (''path'' \<notin> fst ` set kvs \<and> CHR 0x5C \<notin> set (filename file) \<longrightarrow>
         map_of d ''path'' = Some (PStr (file_path env file))))"
proof (intro conjI exI impI)
  show "files (snd (upload_file env file st)) (file_path env file) = Some content"
    by (simp add: upload_file_ingested(2)[OF assms])
  show "fst (upload_file env file st) = Ret (Json (dict_merge (file_info env file content) kvs))"
    by (rule upload_file_ingested(1)[OF assms])
  show "map_of (dict_merge (file_info env file content) kvs) ''size'' = Some (PInt (int (length content)))"
    if "''size'' \<notin> fst ` set kvs"
    by (simp add: map_of_dict_merge_other[OF that] file_info_fields)
  show "map_of (dict_merge (file_info env file content) kvs) ''type'' = Some (opt_str (content_type file))"
    if "''type'' \<notin> fst ` set kvs"
    by (simp add: map_of_dict_merge_other[OF that] file_info_fields)
  show "map_of (dict_merge (file_info env file content) kvs) ''path'' = Some (PStr (file_path env file))"
    if "''path'' \<notin> fst ` set kvs \<and> CHR 0x5C \<notin> set (filename file)"
    by (simp add: map_of_dict_merge_other[OF that[THEN conjunct1]] file_info_fields
          reported_path_is_file_path[OF that[THEN conjunct2]])
qed

theorem upload_round_trip_witness:
  "files (snd (upload_file env_ok notes_txt st0)) ''uploads/20240309_120007_a.txt'' = Some [1, 2, 3] \<and>
   (\<exists>d. fst (upload_file env_ok notes_txt st0) = Ret (Json d) \<and>
      map_of d ''size'' = Some (PInt 3) \<and>
      map_of d ''type'' = Some (PStr ''text/plain'') \<and>
      map_of d ''path'' = Some (PStr ''uploads/20240309_120007_a.txt''))"
proof -
  have l: "log_structured env_ok ''file_upload'' (upload_fields notes_txt [1, 2, 3]) = None"
    by (simp add: env_ok_def)
  have f: "CHR 0x5C \<notin> set (filename notes_txt)" "opt_str (content_type notes_txt) = PStr ''text/plain''"
    by (simp_all add: notes_txt_def opt_str_def)
  from upload_round_trip[OF ingested_ok l, of st0] f
  show ?thesis
    unfolding noon_path by auto
qed


section \<open>When the logging sink raises\<close>

lemma chat_info_log_raises:
  assumes "logger_info env ''Processing chat request'' = Some e"
  shows "fst (chat_endpoint env msgs st) =
     (case logger_error env (''Chat error: '' @ exn_str e) of
        None \<Rightarrow> ExcHTTP 500 (exn_str e) | Some e' \<Rightarrow> Exc e')"
  using assms by (simp add: chat_defs step_simps split: option.splits)

lemma chat_structured_log_raises:
  assumes "logger_info env ''Processing chat request'' = None" and "create_chat_service env = Inr g"
    and "last_message msgs = Inr p"
    and "log_structured env ''chat_request'' (request_fields msgs p) = Some e"
  shows "fst (chat_endpoint env msgs st) =
     (case logger_error env (''Chat error: '' @ exn_str e) of
        None \<Rightarrow> ExcHTTP 500 (exn_str e) | Some e' \<Rightarrow> Exc e')"
  using assms by (simp add: chat_defs step_simps split: option.splits)

lemma reason_info_log_raises:
  assumes "logger_info env ''Processing reasoning request'' = Some e"
  shows "fst (reason_endpoint env msgs st) =
     (case logger_error env (''Reasoning error: '' @ exn_str e) of
        None \<Rightarrow> ExcHTTP 500 (exn_str e) | Some e' \<Rightarrow> Exc e')"
  using assms by (simp add: reason_defs step_simps split: option.splits)

lemma reason_structured_log_raises:
  assumes "logger_info env ''Processing reasoning request'' = None" and "create_reasoner_service env = Inr g"
    and "last_message msgs = Inr p"
    and "log_structured env ''reason_request'' (request_fields msgs p) = Some e"
  shows "fst (reason_endpoint env msgs st) =
     (case logger_error env (''Reasoning error: '' @ exn_str e) of
        None \<Rightarrow> ExcHTTP 500 (exn_str e) | Some e' \<Rightarrow> Exc e')"
  using assms by (simp add: reason_defs step_simps split: option.splits)

lemma upload_structured_log_raises:
  assumes "ingested env file content kvs"
    and "log_structured env ''file_upload'' (upload_fields file content) = Some e"
  shows "fst (upload_file env file st) =
     (case logger_error env (''Upload failed: '' @ exn_str e) of
        None \<Rightarrow> Ret (Json [(''error'', PStr (exn_str e))]) | Some e' \<Rightarrow> Exc e')"
    and "files (snd (upload_file env file st)) (file_path env file) = Some content"
proof -
  have r: "fst (upload_try env file st) = Exc e"
    using upload_try_ingested(1)[OF assms(1), of st] assms(2) by simp
  show "fst (upload_file env file st) =
     (case logger_error env (''Upload failed: '' @ exn_str e) of
        None \<Rightarrow> Ret (Json [(''error'', PStr (exn_str e))]) | Some e' \<Rightarrow> Exc e')"
    by (simp add: upload_file_of_Exc[OF r])
  show "files (snd (upload_file env file st)) (file_path env file) = Some content"
    by (simp add: upload_file_of_Exc[OF r] files_emit upload_try_ingested(2)[OF assms(1)])
qed

lemma upload_info_log_raises:
  assumes "logger_info env (''Uploading file: '' @ filename file) = Some e"
  shows "fst (upload_file env file st) =
     (case logger_error env (''Upload failed: '' @ exn_str e) of
        None \<Rightarrow> Ret (Json [(''error'', PStr (exn_str e))]) | Some e' \<Rightarrow> Exc e')"
  by (simp add: upload_file_of_Exc[OF upload_step_failures(1)[OF assms]])

lemma search_ignores_logging:
  "search_endpoint (env\<lparr>logger_info := a, logger_error := b, log_structured := c\<rparr>) msgs st =
   search_endpoint env msgs st"
  by (simp add: search_defs)

lemma rag_chat_ignores_logging:
  "rag_chat_endpoint (env\<lparr>logger_info := a, logger_error := b, log_structured := c\<rparr>) msgs index_id st =
   rag_chat_endpoint env msgs index_id st"
  by (simp add: rag_chat_defs)

text \<open>
  C9, as stated, fails: nothing in the handlers swallows a logging failure. The same chat
  request is answered with a stream when \<^verbatim>\<open>logger.info\<close> returns and with 500 when it
  raises.
\<close>

theorem logging_failure_counterexample:
  "respond (fst (chat_endpoint env_ok hello st0)) =
     \<lparr>status = 200, body = SseBody (Token ''hi'' End), streamed = True\<rparr> \<and>
   respond (fst (chat_endpoint env_log_fails hello st0)) =
     \<lparr>status = 500, body = Detail ''No space left on device'', streamed = False\<rparr>"
  by (simp add: chat_defs step_simps respond_def env_log_fails_def env_ok_def hello_def
        last_message_def last_item_def getitem_def disk_full_def)

text \<open>
  C9, amended. A failure of the logging sink is handled like any other failure. When
  \<^verbatim>\<open>logger.info\<close> raises \<open>e\<close> on \<^verbatim>\<open>/chat\<close> or \<^verbatim>\<open>/reason\<close>, or when
  \<^verbatim>\<open>log_structured\<close> raises \<open>e\<close> there (the info log having returned, the backend
  constructed and the preview of the last message computed), the except branch calls
  \<^verbatim>\<open>logger.error\<close>: if that returns the handler raises HTTPException 500 with
  \<^verbatim>\<open>str(e)\<close>, and if it raises \<open>e'\<close> the handler raises \<open>e'\<close>. When
  \<^verbatim>\<open>logger.info\<close> raises \<open>e\<close> in the upload, or \<^verbatim>\<open>log_structured\<close> raises \<open>e\<close>
  there after every earlier step returned (the file is then on disk with the bytes
  read), the except branch calls \<^verbatim>\<open>logger.error\<close>: if that returns the handler
  returns \<^verbatim>\<open>{"error": str(e)}\<close>, and if it raises \<open>e'\<close> the handler raises \<open>e'\<close>.
  When \<^verbatim>\<open>logger.error\<close> raises \<open>e2\<close> in the except branch after a construction
  failure on \<^verbatim>\<open>/chat\<close> or \<^verbatim>\<open>/reason\<close>, or after any failure of the upload's try
  block, the handler raises \<open>e2\<close> in place of the primary error.
  \<^verbatim>\<open>/search\<close> and \<^verbatim>\<open>/chat-rag\<close> make no logging call: what they do is the same
  whatever the three logging functions are.
\<close>

theorem logging_failure_fails_the_request:
  "(logger_info env ''Processing chat request'' = Some e \<longrightarrow>
      fst (chat_endpoint env msgs st) =
        (case logger_error env (''Chat error: '' @ exn_str e) of
           None \<Rightarrow> ExcHTTP 500 (exn_str e) | Some e' \<Rightarrow> Exc e')) \<and>
   (logger_info env ''Processing chat request'' = None \<and> create_chat_service env = Inr g \<and>
    last_message msgs = Inr p \<and> log_structured env ''chat_request'' (request_fields msgs p) = Some e \<longrightarrow>
      fst (chat_endpoint env msgs st) =
        (case logger_error env (''Chat error: '' @ exn_str e) of
           None \<Rightarrow> ExcHTTP 500 (exn_str e) | Some e' \<Rightarrow> Exc e')) \<and>
   (logger_info env ''Processing reasoning request'' = Some e \<longrightarrow>
      fst (reason_endpoint env msgs st) =
        (case logger_error env (''Reasoning error: '' @ exn_str e) of
           None \<Rightarrow> ExcHTTP 500 (exn_str e) | Some e' \<Rightarrow> Exc e')) \<and>
   (logger_info env ''Processing reasoning request'' = None \<and> create_reasoner_service env = Inr h \<and>
    last_message msgs = Inr p \<and> log_structured env ''reason_request'' (request_fields msgs p) = Some e \<longrightarrow>
      fst (reason_endpoint env msgs st) =
        (case logger_error env (''Reasoning error: '' @ exn_str e) of
           None \<Rightarrow> ExcHTTP 500 (exn_str e) | Some e' \<Rightarrow> Exc e')) \<and>
   (logger_info env (''Uploading file: '' @ filename file) = Some e \<longrightarrow>
      fst (upload_file env file st) =
        (case logger_error env (''Upload failed: '' @ exn_str e) of
           None \<Rightarrow> Ret (Json [(''error'', PStr (exn_str e))]) | Some e' \<Rightarrow> Exc e')) \<and>
   (ingested env file content kvs \<and>
    log_structured env ''file_upload'' (upload_fields file content) = Some e \<longrightarrow>
      fst (upload_file env file st) =
        (case logger_error env (''Upload failed: '' @ exn_str e) of
           None \<Rightarrow> Ret (Json [(''error'', PStr (exn_str e))]) | Some e' \<Rightarrow> Exc e') \<and>
      files (snd (upload_file env file st)) (file_path env file) = Some content) \<and>
   (logger_info env ''Processing chat request'' = None \<and> create_chat_service env = Inl e \<and>
    logger_error env (''Chat error: '' @ exn_str e) = Some e2 \<longrightarrow>
      fst (chat_endpoint env msgs st) = Exc e2) \<and>
   (logger_info env ''Processing reasoning request'' = None \<and> create_reasoner_service env = Inl e \<and>
    logger_error env (''Reasoning error: '' @ exn_str e) = Some e2 \<longrightarrow>
      fst (reason_endpoint env msgs st) = Exc e2) \<and>
   (fst (upload_try env file st) = Exc e \<and>
    logger_error env (''Upload failed: '' @ exn_str e) = Some e2 \<longrightarrow>
      fst (upload_file env file st) = Exc e2) \<and>
   search_endpoint (env\<lparr>logger_info := a, logger_error := b, log_structured := c\<rparr>) msgs st =
     search_endpoint env msgs st \<and>
   rag_chat_endpoint (env\<lparr>logger_info := a, logger_error := b, log_structured := c\<rparr>) msgs index_id st =
     rag_chat_endpoint env msgs index_id st"
proof (intro conjI impI; (elim conjE)?)
  show "search_endpoint (env\<lparr>logger_info := a, logger_error := b, log_structured := c\<rparr>) msgs st =
     search_endpoint env msgs st"
    by (rule search_ignores_logging)
  show "rag_chat_endpoint (env\<lparr>logger_info := a, logger_error := b, log_structured := c\<rparr>) msgs index_id st =
     rag_chat_endpoint env msgs index_id st"
    by (rule rag_chat_ignores_logging)
next
  assume "logger_info env ''Processing chat request'' = Some e"
  then show "fst (chat_endpoint env msgs st) =
        (case logger_error env (''Chat error: '' @ exn_str e) of
           None \<Rightarrow> ExcHTTP 500 (exn_str e) | Some e' \<Rightarrow> Exc e')"
    by (rule chat_info_log_raises)
next
  assume "logger_info env ''Processing chat request'' = None" "create_chat_service env = Inr g"
    "last_message msgs = Inr p" "log_structured env ''chat_request'' (request_fields msgs p) = Some e"
  then show "fst (chat_endpoint env msgs st) =
        (case logger_error env (''Chat error: '' @ exn_str e) of
           None \<Rightarrow> ExcHTTP 500 (exn_str e) | Some e' \<Rightarrow> Exc e')"
    by (rule chat_structured_log_raises)
next
  assume "logger_info env ''Processing reasoning request'' = Some e"
  then show "fst (reason_endpoint env msgs st) =
        (case logger_error env (''Reasoning error: '' @ exn_str e) of
           None \<Rightarrow> ExcHTTP 500 (exn_str e) | Some e' \<Rightarrow> Exc e')"
    by (rule reason_info_log_raises)
next
  assume "logger_info env ''Processing reasoning request'' = None" "create_reasoner_service env = Inr h"
    "last_message msgs = Inr p" "log_structured env ''reason_request'' (request_fields msgs p) = Some e"
  then show "fst (reason_endpoint env msgs st) =
        (case logger_error env (''Reasoning error: '' @ exn_str e) of
           None \<Rightarrow> ExcHTTP 500 (exn_str e) | Some e' \<Rightarrow> Exc e')"
    by (rule reason_structured_log_raises)
next
  assume "logger_info env (''Uploading file: '' @ filename file) = Some e"
  then show "fst (upload_file env file st) =
        (case logger_error env (''Upload failed: '' @ exn_str e) of
           None \<Rightarrow> Ret (Json [(''error'', PStr (exn_str e))]) | Some e' \<Rightarrow> Exc e')"
    by (rule upload_info_log_raises)
next
  assume a: "ingested env file content kvs"
    "log_structured env ''file_upload'' (upload_fields file content) = Some e"
  show "fst (upload_file env file st) =
        (case logger_error env (''Upload failed: '' @ exn_str e) of
           None \<Rightarrow> Ret (Json [(''error'', PStr (exn_str e))]) | Some e' \<Rightarrow> Exc e')"
    by (rule upload_structured_log_raises(1)[OF a])
  show "files (snd (upload_file env file st)) (file_path env file) = Some content"
    by (rule upload_structured_log_raises(2)[OF a])
next
  assume a: "logger_info env ''Processing chat request'' = None" "create_chat_service env = Inl e"
    and b: "logger_error env (''Chat error: '' @ exn_str e) = Some e2"
  show "fst (chat_endpoint env msgs st) = Exc e2"
    using b by (simp add: chat_construct_fails[OF a])
next
  assume a: "logger_info env ''Processing reasoning request'' = None" "create_reasoner_service env = Inl e"
    and b: "logger_error env (''Reasoning error: '' @ exn_str e) = Some e2"
  show "fst (reason_endpoint env msgs st) = Exc e2"
    using b by (simp add: reason_construct_fails[OF a])
next
  assume a: "fst (upload_try env file st) = Exc e"
    and b: "logger_error env (''Upload failed: '' @ exn_str e) = Some e2"
  show "fst (upload_file env file st) = Exc e2"
    using b by (simp add: upload_file_of_Exc[OF a])
qed


theorem logging_failure_fails_the_request_witness:
  "fst (chat_endpoint env_log_fails hello st0) = ExcHTTP 500 ''No space left on device'' \<and>
   fst (reason_endpoint env_log_fails hello st0) = ExcHTTP 500 ''No space left on device'' \<and>
   fst (upload_file env_log_fails notes_txt st0) =
     Ret (Json [(''error'', PStr ''No space left on device'')]) \<and>
   fst (upload_file env_structured_log_fails notes_txt st0) =
     Ret (Json [(''error'', PStr ''No space left on device'')]) \<and>
   files (snd (upload_file env_structured_log_fails notes_txt st0))
     (file_path env_structured_log_fails notes_txt) = Some [1, 2, 3] \<and>
   fst (chat_endpoint env_no_backend_log_broken hello st0) = Exc log_broken"
proof -
  have i: "\<And>m. logger_info env_log_fails m = Some disk_full"
    "\<And>m. logger_error env_log_fails m = None"
    by (simp_all add: env_log_fails_def env_ok_def)
  note T1 = logging_failure_fails_the_request[of env_log_fails disk_full hello st0 _ _ _ notes_txt]
  have c1: "fst (chat_endpoint env_log_fails hello st0) =
      (case logger_error env_log_fails (''Chat error: '' @ exn_str disk_full) of
         None \<Rightarrow> ExcHTTP 500 (exn_str disk_full) | Some e' \<Rightarrow> Exc e')"
    by (rule T1[THEN conjunct1, THEN mp, OF i(1)])
  have c2: "fst (reason_endpoint env_log_fails hello st0) =
      (case logger_error env_log_fails (''Reasoning error: '' @ exn_str disk_full) of
         None \<Rightarrow> ExcHTTP 500 (exn_str disk_full) | Some e' \<Rightarrow> Exc e')"
    by (rule T1[THEN conjunct2, THEN conjunct2, THEN conjunct1, THEN mp, OF i(1)])
  have c3: "fst (upload_file env_log_fails notes_txt st0) =
      (case logger_error env_log_fails (''Upload failed: '' @ exn_str disk_full) of
         None \<Rightarrow> Ret (Json [(''error'', PStr (exn_str disk_full))]) | Some e' \<Rightarrow> Exc e')"
    by (rule T1[THEN conjunct2, THEN conjunct2, THEN conjunct2, THEN conjunct2, THEN conjunct1, THEN mp, OF i(1)])
  have j: "ingested env_structured_log_fails notes_txt [1, 2, 3] [(''index_id'', PStr ''idx1'')]"
    "\<And>n d. log_structured env_structured_log_fails n d = Some disk_full"
    "\<And>m. logger_error env_structured_log_fails m = None"
    by (simp_all add: ingested_def env_structured_log_fails_def env_ok_def notes_txt_def)
  note T2 = logging_failure_fails_the_request
      [of env_structured_log_fails disk_full hello st0 _ _ _ notes_txt "[1, 2, 3]" "[(''index_id'', PStr ''idx1'')]"]
  have c4: "fst (upload_file env_structured_log_fails notes_txt st0) =
      (case logger_error env_structured_log_fails (''Upload failed: '' @ exn_str disk_full) of
         None \<Rightarrow> Ret (Json [(''error'', PStr (exn_str disk_full))]) | Some e' \<Rightarrow> Exc e')"
    by (rule T2[THEN conjunct2, THEN conjunct2, THEN conjunct2, THEN conjunct2, THEN conjunct2, THEN conjunct1, THEN mp, OF conjI[OF j(1) j(2)], THEN conjunct1])
  have c5: "files (snd (upload_file env_structured_log_fails notes_txt st0))
     (file_path env_structured_log_fails notes_txt) = Some [1, 2, 3]"
    by (rule T2[THEN conjunct2, THEN conjunct2, THEN conjunct2, THEN conjunct2, THEN conjunct2, THEN conjunct1, THEN mp, OF conjI[OF j(1) j(2)], THEN conjunct2])
  have k: "\<And>m. logger_info env_no_backend_log_broken m = None"
    "create_chat_service env_no_backend_log_broken = Inl missing_key"
    "\<And>m. logger_error env_no_backend_log_broken m = Some log_broken"
    by (simp_all add: env_no_backend_log_broken_def env_no_backend_def env_ok_def)
  note T3 = logging_failure_fails_the_request
      [of env_no_backend_log_broken missing_key hello st0 _ _ _ _ _ _ log_broken]
  have c6: "fst (chat_endpoint env_no_backend_log_broken hello st0) = Exc log_broken"
    by (rule T3[THEN conjunct2, THEN conjunct2, THEN conjunct2, THEN conjunct2, THEN conjunct2, THEN conjunct2, THEN conjunct1, THEN mp, OF conjI[OF k(1) conjI[OF k(2) k(3)]]])
  show ?thesis
    using c1 c2 c3 c4 c5 c6 by (simp add: i j disk_full_def)
qed


section \<open>The timestamp determines the second\<close>















section \<open>Stored filenames of uploads with the same name\<close>



section \<open>A token sequence that fails part-way\<close>

lemma stream_adapter_emits:
  "stream_adapter (emits toks rest) = map DataFrame toks @ stream_adapter rest"
  by (induction toks) simp_all

text \<open>
  C2. For a backend sequence that yields the tokens \<open>toks\<close> and then raises \<open>e\<close>, the
  adapter forwards exactly one data frame per token, in order, and ends with an error
  frame; a sequence that ends cleanly ends with the close of the stream instead, so the
  failed stream's frames differ from those of every clean stream.
\<close>

theorem stream_adapter_signals_failure:
  "stream_adapter (emits toks (Failed e)) = map DataFrame toks @ [ErrorFrame (exn_str e)] \<and>
   stream_adapter (emits toks End) = map DataFrame toks @ [StreamClosed] \<and>
   stream_adapter (emits toks (Failed e)) \<noteq> stream_adapter (emits toks' End)"
  by (simp add: stream_adapter_emits)

end
